theory Spec2Isabelle
  imports
    Complex_Main
    "HOL-Library.Word"
    "HOL-Library.Signed_Division"
    "HOL-Library.Char_ord"
    "HOL-Library.List_Lexorder"
begin

section \<open>The preset generator of presets/workspace/generator\<close>

text \<open>
  This theory embeds the Go package \<open>generator\<close> (the file with \<open>GeneratePreset\<close>,
  \<open>FetchModelMetadata\<close>, \<open>getInt\<close>, \<open>ParseModelMetadata\<close>, \<open>calculateStorageSize\<close> and
  \<open>calculateKVCacheTokenSize\<close>) and proves properties of it.

  Conventions.
  \<^item> Go's \<open>int\<close> and \<open>int64\<close> are 64-bit two's complement words: \<open>+\<close> and \<open>*\<close> wrap,
    \<open>sint\<close> reads the signed value, and the comparisons of the source are comparisons
    of \<open>sint\<close>.
  \<^item> A finite \<open>float64\<close> is the real number it denotes. The conversions between
    integers and \<open>float64\<close> are written out where they round.
  \<^item> A Go \<open>string\<close> is a list of bytes (\<open>char\<close>).
\<close>

subsection \<open>Go values\<close>

type_synonym go_int = "64 word"

text \<open>
  The dynamic values that \<open>json.Unmarshal\<close> stores in a \<open>map[string]interface{}\<close>
  (\<open>float64\<close>, \<open>string\<close>, \<open>bool\<close>, \<open>nil\<close>, \<open>[]interface{}\<close>, nested maps), and \<open>int\<close>,
  which \<open>getInt\<close> accepts as well.
\<close>

datatype iface =
    VFloat64 real
  | VInt go_int
  | VString string
  | VBool bool
  | VNil
  | VSlice "iface list"
  | VMap "(string \<times> iface) list"

type_synonym config = "string \<rightharpoonup> iface"

text \<open>
  The conversion \<open>int(v)\<close> of a \<open>float64\<close>: the fraction is discarded (truncation towards
  zero). When the truncated value does not fit the result type, Go leaves the result to
  the implementation; the value of the amd64 target (the smallest \<open>int64\<close>) is used.
\<close>

definition truncZero :: "real \<Rightarrow> int" where
  "truncZero v = (if 0 \<le> v then \<lfloor>v\<rfloor> else \<lceil>v\<rceil>)"

definition float64_to_int :: "real \<Rightarrow> go_int" where
  "float64_to_int v =
     (if - (2 ^ 63) \<le> truncZero v \<and> truncZero v < 2 ^ 63
      then word_of_int (truncZero v) else word_of_int (- (2 ^ 63)))"

text \<open>Integer division \<open>a / b\<close> of Go, for \<open>b \<noteq> 0\<close>: the quotient is truncated towards zero.\<close>

definition go_div :: "go_int \<Rightarrow> go_int \<Rightarrow> go_int" where
  "go_div a b = word_of_int (sint a sdiv sint b)"

subsection \<open>Decimal numerals: \<open>strconv.Atoi\<close>\<close>

definition isDigit :: "char \<Rightarrow> bool" where
  "isDigit c = (CHR ''0'' \<le> c \<and> c \<le> CHR ''9'')"

definition digitVal :: "char \<Rightarrow> nat" where
  "digitVal c = of_char c - of_char CHR ''0''"

definition decimal :: "string \<Rightarrow> nat" where
  "decimal ds = foldl (\<lambda>a c. 10 * a + digitVal c) 0 ds"

text \<open>
  \<open>strconv.Atoi\<close>: an optional sign, then one or more decimal digits and nothing else;
  a value outside the range of \<open>int\<close> is an error. \<open>None\<close> is \<open>err != nil\<close>.
\<close>

definition signed_decimal :: "string \<Rightarrow> int option" where
  "signed_decimal s =
     (let neg = (s \<noteq> [] \<and> hd s = CHR ''-'');
          ds = (if s \<noteq> [] \<and> (hd s = CHR ''-'' \<or> hd s = CHR ''+'') then tl s else s)
      in if ds = [] \<or> \<not> list_all isDigit ds then None
         else Some (if neg then - int (decimal ds) else int (decimal ds)))"

definition Atoi :: "string \<Rightarrow> go_int option" where
  "Atoi s =
     (case signed_decimal s of
        None \<Rightarrow> None
      | Some v \<Rightarrow> if - (2 ^ 63) \<le> v \<and> v < 2 ^ 63 then Some (word_of_int v) else None)"

subsection \<open>\<open>getInt\<close>\<close>

text \<open>
  The loop over \<open>keys\<close>: a key whose value is a \<open>float64\<close> or an \<open>int\<close> returns at once,
  a string returns when \<open>Atoi\<close> accepts it; a missing key, a value of another type and
  a string that \<open>Atoi\<close> rejects go on to the next key.
\<close>

fun getInt :: "config \<Rightarrow> string list \<Rightarrow> go_int \<Rightarrow> go_int" where
  "getInt config [] defaultVal = defaultVal"
| "getInt config (key # keys) defaultVal =
     (case config key of
        None \<Rightarrow> getInt config keys defaultVal
      | Some val \<Rightarrow>
          (case val of
             VFloat64 v \<Rightarrow> float64_to_int v
           | VInt v \<Rightarrow> v
           | VString v \<Rightarrow>
               (case Atoi v of
                  Some i \<Rightarrow> i
                | None \<Rightarrow> getInt config keys defaultVal)
           | _ \<Rightarrow> getInt config keys defaultVal))"

subsection \<open>\<open>calculateKVCacheTokenSize\<close>\<close>

text \<open>The local variables of the function, in the order the source assigns them.\<close>

definition kv_hiddenSize :: "config \<Rightarrow> go_int" where
  "kv_hiddenSize config = getInt config [''hidden_size'', ''n_embd'', ''d_model''] 0"

definition kv_hiddenLayers :: "config \<Rightarrow> go_int" where
  "kv_hiddenLayers config = getInt config [''num_hidden_layers'', ''n_layer'', ''n_layers''] 0"

definition kv_attentionHeads :: "config \<Rightarrow> go_int" where
  "kv_attentionHeads config = getInt config [''num_attention_heads'', ''n_head'', ''n_heads''] 0"

text \<open>\<open>kvHeads\<close> and \<open>headDim\<close> as first read; both are reassigned below.\<close>

definition kv_kvHeads_read :: "config \<Rightarrow> go_int" where
  "kv_kvHeads_read config = getInt config [''num_key_value_heads'', ''n_head_kv'', ''n_kv_heads''] 0"

definition kv_headDim_read :: "config \<Rightarrow> go_int" where
  "kv_headDim_read config = getInt config [''head_dim''] 0"

definition kv_headDim :: "config \<Rightarrow> go_int" where
  "kv_headDim config =
     (if kv_headDim_read config = 0 \<and> 0 < sint (kv_attentionHeads config)
      then go_div (kv_hiddenSize config) (kv_attentionHeads config)
      else kv_headDim_read config)"

definition kv_kvLoraRank :: "config \<Rightarrow> go_int" where
  "kv_kvLoraRank config = getInt config [''kv_lora_rank''] (- 1)"

definition kv_qkRopeHeadDim :: "config \<Rightarrow> go_int" where
  "kv_qkRopeHeadDim config = getInt config [''qk_rope_head_dim''] 0"

text \<open>
  \<open>config["multi_query"].(bool)\<close> with \<open>ok && mq\<close>: the key holds the boolean \<open>true\<close>.
\<close>

definition kv_kvHeads :: "config \<Rightarrow> go_int" where
  "kv_kvHeads config =
     (if kv_kvHeads_read config = 0 \<and> 0 < sint (kv_attentionHeads config)
      then (if config ''multi_query'' = Some (VBool True) then 1 else kv_attentionHeads config)
      else kv_kvHeads_read config)"

text \<open>The pair \<open>(attnType, elementsPerToken)\<close> after the \<open>if\<close> chain.\<close>

definition kv_classify :: "config \<Rightarrow> string \<times> go_int" where
  "kv_classify config =
     (if kv_kvLoraRank config \<noteq> - 1
      then (''MLA'', kv_kvLoraRank config + kv_qkRopeHeadDim config)
      else if 0 < sint (kv_attentionHeads config) \<and> 0 < sint (kv_kvHeads config)
              \<and> 0 < sint (kv_headDim config)
      then (if kv_attentionHeads config = kv_kvHeads config then ''MHA''
            else if kv_kvHeads config = 1 then ''MQA''
            else ''GQA'',
            2 * kv_kvHeads config * kv_headDim config)
      else (''Unknown'', 0))"

definition kv_attnType :: "config \<Rightarrow> string" where
  "kv_attnType config = fst (kv_classify config)"

definition kv_elementsPerToken :: "config \<Rightarrow> go_int" where
  "kv_elementsPerToken config = snd (kv_classify config)"

text \<open>The result \<open>(tokenSize, attnType)\<close>.\<close>

definition calculateKVCacheTokenSize :: "config \<Rightarrow> go_int \<times> string" where
  "calculateKVCacheTokenSize config =
     (let totalElements = kv_elementsPerToken config * kv_hiddenLayers config;
          tokenSize = totalElements * 2
      in (tokenSize, kv_attnType config))"

subsection \<open>Strings: \<open>strings.HasPrefix\<close>, \<open>HasSuffix\<close>, \<open>TrimSuffix\<close>, \<open>ToLower\<close>, \<open>Split\<close>\<close>

definition HasPrefix :: "string \<Rightarrow> string \<Rightarrow> bool" where
  "HasPrefix s p = (take (length p) s = p)"

definition HasSuffix :: "string \<Rightarrow> string \<Rightarrow> bool" where
  "HasSuffix s suffix =
     (length suffix \<le> length s \<and> drop (length s - length suffix) s = suffix)"

definition TrimSuffix :: "string \<Rightarrow> string \<Rightarrow> string" where
  "TrimSuffix s suffix =
     (if HasSuffix s suffix then take (length s - length suffix) s else s)"

text \<open>
  \<open>strings.ToLower\<close> on the letters \<open>A\<close> to \<open>Z\<close>. Repository names are ASCII; the
  lower-casing of letters outside ASCII is not modelled (such bytes stay as they are).
\<close>

definition toLowerChar :: "char \<Rightarrow> char" where
  "toLowerChar c =
     (case map_of (zip ''ABCDEFGHIJKLMNOPQRSTUVWXYZ'' ''abcdefghijklmnopqrstuvwxyz'') c of
        Some l \<Rightarrow> l
      | None \<Rightarrow> c)"

definition ToLower :: "string \<Rightarrow> string" where
  "ToLower s = map toLowerChar s"

text \<open>
  \<open>nameParts[len(nameParts)-1]\<close> for \<open>nameParts := strings.Split(modelRepo, "/")\<close>: what
  follows the last \<open>/\<close>, or the whole string when there is none.
\<close>

definition lastPart :: "string \<Rightarrow> string" where
  "lastPart s = rev (takeWhile (\<lambda>c. c \<noteq> CHR ''/'') (rev s))"

subsection \<open>Printing integers: \<open>%d\<close> and \<open>%.0f\<close>\<close>

definition digitChar :: "nat \<Rightarrow> char" where
  "digitChar d = ''0123456789'' ! d"

fun digits :: "nat \<Rightarrow> string" where
  "digits n = (if n < 10 then [digitChar n] else digits (n div 10) @ [digitChar (n mod 10)])"

declare digits.simps [simp del]

text \<open>\<open>fmt.Sprintf("%d", i)\<close>.\<close>

definition Sprintf_d :: "int \<Rightarrow> string" where
  "Sprintf_d i = (if i < 0 then ''-'' else []) @ digits (nat \<bar>i\<bar>)"

text \<open>
  A \<open>float64\<close> whose value is an integer, as sign and magnitude, so that the negative
  zero that \<open>math.Ceil\<close> returns on \<open>(-1, 0)\<close> is told apart from zero:
  \<open>fmt.Sprintf("%.0f", x)\<close> prints the sign of a negative zero.
\<close>

datatype intfloat = IntFloat (negative: bool) (magnitude: nat)

definition Ceil :: "real \<Rightarrow> intfloat" where
  "Ceil x = IntFloat (x < 0) (nat \<bar>\<lceil>x\<rceil>\<bar>)"

definition Sprintf_0f :: "intfloat \<Rightarrow> string" where
  "Sprintf_0f x = (if negative x then ''-'' else []) @ digits (magnitude x)"

subsection \<open>Integers as \<open>float64\<close>\<close>

text \<open>
  The number of bits of a natural number, and the \<open>float64\<close> nearest to an integer:
  an integer of at most 53 bits is represented exactly; a longer one keeps its 53
  leading bits, rounded to nearest, ties to the even significand. The result is again
  an integer.
\<close>

fun bitlen :: "nat \<Rightarrow> nat" where
  "bitlen n = (if n = 0 then 0 else Suc (bitlen (n div 2)))"

declare bitlen.simps [simp del]

definition round_to_even :: "nat \<Rightarrow> nat \<Rightarrow> nat" where
  "round_to_even a e =
     (let q = a div 2 ^ e; r = a mod 2 ^ e; half = 2 ^ (e - 1)
      in (if half < r \<or> (r = half \<and> odd q) then q + 1 else q) * 2 ^ e)"

definition float64_of_int :: "int \<Rightarrow> int" where
  "float64_of_int x =
     (let a = nat \<bar>x\<bar>
      in if bitlen a \<le> 53 then x else sgn x * int (round_to_even a (bitlen a - 53)))"

subsection \<open>The regular expressions\<close>

text \<open>
  \<open>MatchString\<close> is not anchored: it holds when some substring matches. In Go's syntax
  \<open>.\<close> is any character but a newline. \<open>dotStarThen lit s\<close>: a prefix of \<open>s\<close> matches
  \<open>.*lit\<close>. \<open>somewhere P s\<close>: \<open>P\<close> holds of \<open>s\<close> from some position on.
\<close>

fun dotStarThen :: "string \<Rightarrow> string \<Rightarrow> bool" where
  "dotStarThen lit [] = (lit = [])"
| "dotStarThen lit (c # cs) =
     (HasPrefix (c # cs) lit \<or> (c \<noteq> CHR 0x0A \<and> dotStarThen lit cs))"

fun somewhere :: "(string \<Rightarrow> bool) \<Rightarrow> string \<Rightarrow> bool" where
  "somewhere P [] = P []"
| "somewhere P (c # cs) = (P (c # cs) \<or> somewhere P cs)"

text \<open>\<open>.*\.safetensors\<close>, \<open>.*\.bin\<close> and \<open>consolidated.*\.safetensors\<close>.\<close>

definition safetensorRegex :: "string \<Rightarrow> bool" where
  "safetensorRegex s = somewhere (dotStarThen ''.safetensors'') s"

definition binRegex :: "string \<Rightarrow> bool" where
  "binRegex s = somewhere (dotStarThen ''.bin'') s"

definition mistralRegex :: "string \<Rightarrow> bool" where
  "mistralRegex s =
     somewhere (\<lambda>t. HasPrefix t ''consolidated''
                  \<and> dotStarThen ''.safetensors'' (drop (length ''consolidated'') t)) s"

subsection \<open>The generator and its surroundings\<close>

definition SystemFileDiskSizeGiB :: int where
  "SystemFileDiskSizeGiB = 50"

definition DefaultModelTokenLimit :: go_int where
  "DefaultModelTokenLimit = 2048"

definition HuggingFaceWebsite :: string where
  "HuggingFaceWebsite = ''https://huggingface.co''"

definition reasoningParserMap :: "(string \<times> string) list" where
  "reasoningParserMap =
     [(''deepseek-r1'', ''deepseek_r1''),
      (''deepseek-v3'', ''deepseek_v3''),
      (''ernie-4.5'', ''ernie45''),
      (''glm-4.5'', ''glm45''),
      (''hunyuan-a13b'', ''hunyuan_a13b''),
      (''granite-3.2'', ''granite''),
      (''minimax-m2'', ''minimax_m2_append_think''),
      (''qwen3'', ''qwen3''),
      (''qwq-32b'', ''deepseek_r1'')]"

definition toolCallParserMap :: "(string \<times> string) list" where
  "toolCallParserMap =
     [(''hermes-2'', ''hermes''),
      (''hermes-3'', ''hermes''),
      (''mistral'', ''mistral''),
      (''meta-llama-3'', ''llama3_json''),
      (''meta-llama-4'', ''llama4_pythonic''),
      (''granite-3'', ''granite''),
      (''granite-4'', ''hermes''),
      (''internlm'', ''internlm''),
      (''ai21-jamba'', ''jamba''),
      (''qwq-32b'', ''hermes''),
      (''qwen2.5'', ''hermes''),
      (''minimax'', ''minimax''),
      (''deepseek-r1'', ''deepseek_v3''),
      (''deepseek-v3'', ''deepseek_v3''),
      (''deepseek-v3.1'', ''deepseek_v31''),
      (''kimi_k2'', ''kimi_k2''),
      (''hunyuan-a13b'', ''hunyuan_a13b''),
      (''longcat'', ''longcat''),
      (''glm-4'', ''glm45''),
      (''qwen3'', ''hermes''),
      (''qwen3-coder'', ''qwen3_xml''),
      (''olmo-3'', ''olmo3'')]"

text \<open>
  \<open>model.PresetParam\<close> (declared in \<open>pkg/model\<close>): the fields the generator assigns,
  those of the embedded \<open>Metadata\<close> and of \<open>VLLM\<close> side by side.
\<close>

record PresetParam =
  Name :: string
  Architectures :: "string list"
  ModelType :: string
  Version :: string
  DownloadAtRuntime :: bool
  DownloadAuthRequired :: bool
  DiskStorageRequirement :: string
  ModelFileSize :: string
  BytesPerToken :: go_int
  ModelTokenLimit :: go_int
  ReasoningParser :: string
  ToolCallParser :: string
  AttnType :: string
  VLLM_ModelName :: string
  VLLM_ModelRunParams :: "string \<rightharpoonup> string"

record Generator =
  ModelRepo :: string
  Token :: string
  Param :: PresetParam
  LoadFormat :: string
  ConfigFormat :: string
  TokenizerMode :: string
  ModelConfig :: config

record FileInfo =
  Path :: string
  Size :: "64 word"
  Type :: string

type_synonym error = string
type_synonym bytes = string

text \<open>
  What \<open>client.Do\<close> returns: an error, or a response with its status code and what
  \<open>io.ReadAll\<close> makes of its body.
\<close>

datatype response = ClientError error | Response go_int "error + bytes"

text \<open>
  What the generator reads from outside: the environment variable \<open>HF_TOKEN\<close>, the
  error of \<open>http.NewRequest\<close> for a URL (if any), the answer of the hub to a request
  (URL and \<open>Authorization\<close> header, empty when none is set), the two uses of
  \<open>json.Unmarshal\<close>, and the order in which \<open>range\<close> visits \<open>reasoningParserMap\<close>.
\<close>

record env =
  HF_TOKEN :: string
  NewRequest :: "string \<Rightarrow> error option"
  Do :: "string \<Rightarrow> string \<Rightarrow> response"
  Unmarshal_files :: "bytes \<Rightarrow> error + FileInfo list"
  Unmarshal_config :: "bytes \<Rightarrow> error + config"
  range_reasoningParserMap :: "(string \<times> string) list"

text \<open>The requests sent so far: URL and \<open>Authorization\<close> header of each.\<close>

type_synonym requests = "(string \<times> string) list"

definition NewGenerator :: "string \<Rightarrow> string \<Rightarrow> Generator" where
  "NewGenerator modelRepo token =
     (let modelNameSafe = ToLower (lastPart modelRepo)
      in \<lparr>ModelRepo = modelRepo,
          Token = token,
          Param = \<lparr>Name = modelNameSafe,
                    Architectures = [],
                    ModelType = ''tfs'',
                    Version = HuggingFaceWebsite @ ''/'' @ modelRepo,
                    DownloadAtRuntime = True,
                    DownloadAuthRequired = False,
                    DiskStorageRequirement = ''50Gi'',
                    ModelFileSize = ''0Gi'',
                    BytesPerToken = 0,
                    ModelTokenLimit = 0,
                    ReasoningParser = [],
                    ToolCallParser = [],
                    AttnType = [],
                    VLLM_ModelName = [],
                    VLLM_ModelRunParams = Map.empty\<rparr>,
          LoadFormat = ''auto'',
          ConfigFormat = ''auto'',
          TokenizerMode = ''auto'',
          ModelConfig = Map.empty\<rparr>)"

definition getAuthHeader :: "env \<Rightarrow> Generator \<Rightarrow> string" where
  "getAuthHeader e g =
     (if Token g \<noteq> [] then ''Bearer '' @ Token g
      else if HF_TOKEN e \<noteq> [] then ''Bearer '' @ HF_TOKEN e
      else [])"

text \<open>
  \<open>fetchURL\<close> returns the body or an error, the generator (whose
  \<open>DownloadAuthRequired\<close> it may have set) and the requests sent.
\<close>

definition fetchURL ::
  "env \<Rightarrow> string \<Rightarrow> Generator \<times> requests \<Rightarrow> (error + bytes) \<times> Generator \<times> requests" where
  "fetchURL e url gw =
     (let g = fst gw; w = snd gw in
      case NewRequest e url of
        Some err \<Rightarrow> (Inl err, g, w)
      | None \<Rightarrow>
          (let auth = getAuthHeader e g in
           case Do e url auth of
             ClientError err \<Rightarrow> (Inl err, g, w @ [(url, auth)])
           | Response StatusCode body \<Rightarrow>
               (let w' = w @ [(url, auth)];
                    g' = (if StatusCode = 401 \<or> StatusCode = 403
                          then g\<lparr>Param := (Param g)\<lparr>DownloadAuthRequired := True\<rparr>\<rparr>
                          else g)
                in if (StatusCode = 401 \<or> StatusCode = 403) \<and> auth = []
                   then (Inl (''authentication required for accessing '' @ url), g', w')
                   else if StatusCode \<noteq> 200
                   then (Inl (''failed to fetch '' @ url @ '': status ''
                              @ Sprintf_d (sint StatusCode)), g', w')
                   else (body, g', w'))))"

subsection \<open>\<open>FetchModelMetadata\<close>\<close>

text \<open>
  The part of \<open>FetchModelMetadata\<close> from \<open>// Filter files\<close> to the end of the format
  detection. The loop appends to \<open>mistralFiles\<close> the files whose path matches
  \<open>mistralRegex\<close> and to \<open>selectedFiles\<close> those whose path matches \<open>safetensorRegex\<close> or
  \<open>binRegex\<close>, in the order of the listing. The result is the error of the last
  branch, or the generator with its format fields, \<open>configFile\<close> and \<open>selectedFiles\<close>.
\<close>

definition onlySafetensors :: "FileInfo list \<Rightarrow> FileInfo list" where
  "onlySafetensors selectedFiles = filter (\<lambda>f. HasSuffix (Path f) ''.safetensors'') selectedFiles"

definition detectFormat ::
  "Generator \<Rightarrow> FileInfo list \<Rightarrow> error + Generator \<times> string \<times> FileInfo list" where
  "detectFormat g files =
     (let mistralFiles = filter (\<lambda>f. mistralRegex (Path f)) files;
          selectedFiles = filter (\<lambda>f. safetensorRegex (Path f) \<or> binRegex (Path f)) files
      in if length mistralFiles > 0
         then Inr (g\<lparr>LoadFormat := ''mistral'', ConfigFormat := ''mistral'',
                      TokenizerMode := ''mistral''\<rparr>,
                   ''params.json'', mistralFiles)
         else if length selectedFiles > 0
         then (let hasSafetensors =
                     list_ex (\<lambda>f. HasSuffix (Path f) ''.safetensors'') selectedFiles
               in Inr (g, ''config.json'',
                       if hasSafetensors then onlySafetensors selectedFiles
                       else selectedFiles))
         else Inl ''no .safetensors or .bin files found'')"

text \<open>\<open>totalBytes\<close>: the sum of the sizes in \<open>int64\<close>.\<close>

definition totalBytes :: "FileInfo list \<Rightarrow> 64 word" where
  "totalBytes selectedFiles = foldl (\<lambda>t f. t + Size f) 0 selectedFiles"

text \<open>
  \<open>modelSizeGB := float64(totalBytes) / (1024 * 1024 * 1024)\<close>: the division by a power
  of two is exact. Then \<open>fmt.Sprintf("%.0fGi", math.Ceil(modelSizeGB))\<close>.
\<close>

definition modelSizeGB :: "64 word \<Rightarrow> real" where
  "modelSizeGB t = of_int (float64_of_int (sint t)) / (1024 * 1024 * 1024)"

definition formatModelFileSize :: "64 word \<Rightarrow> string" where
  "formatModelFileSize t = Sprintf_0f (Ceil (modelSizeGB t)) @ ''Gi''"

text \<open>The result is \<open>None\<close> for \<open>nil\<close>.\<close>

definition FetchModelMetadata ::
  "env \<Rightarrow> Generator \<times> requests \<Rightarrow> error option \<times> Generator \<times> requests" where
  "FetchModelMetadata e gw =
     (let url = HuggingFaceWebsite @ ''/api/models/'' @ ModelRepo (fst gw)
                @ ''/tree/main?recursive=true''
      in case fetchURL e url gw of
           (Inl err, g1, w1) \<Rightarrow> (Some (''error listing files: '' @ err), g1, w1)
         | (Inr body, g1, w1) \<Rightarrow>
             (case Unmarshal_files e body of
                Inl err \<Rightarrow> (Some (''error parsing file list: '' @ err), g1, w1)
              | Inr files \<Rightarrow>
                  (case detectFormat g1 files of
                     Inl err \<Rightarrow> (Some err, g1, w1)
                   | Inr (g2, configFile, selectedFiles) \<Rightarrow>
                       (let g3 = g2\<lparr>Param := (Param g2)
                                  \<lparr>ModelFileSize := formatModelFileSize (totalBytes selectedFiles),
                                   VLLM_ModelRunParams := Map.empty\<rparr>\<rparr>;
                            configURL = HuggingFaceWebsite @ ''/'' @ ModelRepo g3
                                        @ ''/resolve/main/'' @ configFile
                        in case fetchURL e configURL (g3, w1) of
                             (Inl err, g4, w2) \<Rightarrow>
                               (Some (''error fetching config: '' @ err), g4, w2)
                           | (Inr configBody, g4, w2) \<Rightarrow>
                               (case Unmarshal_config e configBody of
                                  Inl err \<Rightarrow>
                                    (Some (''error parsing config: '' @ err), g4, w2)
                                | Inr cfg \<Rightarrow>
                                    (None, g4\<lparr>ModelConfig := cfg\<rparr>, w2))))))"

subsection \<open>\<open>ParseModelMetadata\<close>\<close>

text \<open>
  The reasoning parser: the first entry in the order of \<open>range\<close> whose key is a prefix
  of the name, then \<open>break\<close>.
\<close>

definition selectReasoningParser :: "(string \<times> string) list \<Rightarrow> string \<Rightarrow> string \<Rightarrow> string" where
  "selectReasoningParser visited name current =
     (case List.find (\<lambda>entry. HasPrefix name (fst entry)) visited of
        Some entry \<Rightarrow> snd entry
      | None \<Rightarrow> current)"

text \<open>
  The tool-call parser for a table: the keys are sorted (\<open>sort.Strings\<close>, the order of
  the bytes), and every key that is a prefix of the name overwrites the result with
  its value. A Go map has each key once, so the sorted list does not depend on the
  order in which \<open>range\<close> yields the keys.
\<close>

definition lookup :: "(string \<times> string) list \<Rightarrow> string \<Rightarrow> string" where
  "lookup table key = (case map_of table key of Some v \<Rightarrow> v | None \<Rightarrow> [])"

definition selectToolCallParser :: "(string \<times> string) list \<Rightarrow> string \<Rightarrow> string \<Rightarrow> string" where
  "selectToolCallParser table name current =
     (let prefixes = sort (map fst table)
      in foldl (\<lambda>result prefix. if HasPrefix name prefix then lookup table prefix else result)
           current prefixes)"

definition parseArchitectures :: "config \<Rightarrow> string list" where
  "parseArchitectures cfg =
     (case cfg ''architectures'' of
        Some (VSlice arch) \<Rightarrow>
          List.map_filter (\<lambda>a. case a of VString archStr \<Rightarrow> Some archStr | _ \<Rightarrow> None) arch
      | _ \<Rightarrow> [])"

definition ParseModelMetadata :: "env \<Rightarrow> Generator \<Rightarrow> Generator" where
  "ParseModelMetadata e g =
     (let maxPos = getInt (ModelConfig g)
                     [''max_position_embeddings'', ''n_ctx'', ''seq_length'', ''max_seq_len'',
                      ''max_sequence_length'']
                     DefaultModelTokenLimit;
          name = Name (Param g);
          archs = parseArchitectures (ModelConfig g);
          archs' = (if length archs = 0
                    then (if HasPrefix name ''mistral-large-3'' then [''MistralLarge3ForCausalLM'']
                          else if HasPrefix name ''ministral-3''
                          then [''Mistral3ForConditionalGeneration'']
                          else archs)
                    else archs)
      in g\<lparr>Param := (Param g)
            \<lparr>ModelTokenLimit := maxPos,
             Architectures := archs',
             ReasoningParser :=
               selectReasoningParser (range_reasoningParserMap e) name (ReasoningParser (Param g)),
             ToolCallParser :=
               selectToolCallParser toolCallParserMap name (ToolCallParser (Param g))\<rparr>\<rparr>)"

subsection \<open>\<open>calculateStorageSize\<close> and \<open>FinalizeParams\<close>\<close>

text \<open>
  \<open>strconv.ParseFloat\<close> on an optionally signed run of decimal digits: the \<open>float64\<close>
  nearest to the integer written. \<open>None\<close> is returned for every other string: a
  syntax error, for which Go's result is 0, and the other notations of a float
  (fraction, exponent, hexadecimal, infinity), which \<open>%.0f\<close> of a finite number never
  prints and which are not modelled.
\<close>

definition ParseFloat :: "string \<Rightarrow> int option" where
  "ParseFloat s = map_option float64_of_int (signed_decimal s)"

text \<open>
  \<open>sz + SystemFileDiskSizeGiB\<close> is an addition of \<open>float64\<close>: the sum of two integers,
  rounded; \<open>int(...)\<close> converts it.
\<close>

definition calculateStorageSize :: "Generator \<Rightarrow> string" where
  "calculateStorageSize g =
     (let szStr = TrimSuffix (ModelFileSize (Param g)) ''Gi'';
          sz = (case ParseFloat szStr of Some v \<Rightarrow> v | None \<Rightarrow> 0);
          req = float64_to_int (of_int (float64_of_int (sz + SystemFileDiskSizeGiB)))
      in Sprintf_d (sint req) @ ''Gi'')"

definition FinalizeParams :: "Generator \<Rightarrow> Generator" where
  "FinalizeParams g =
     (let g1 = g\<lparr>Param := (Param g)\<lparr>DiskStorageRequirement := calculateStorageSize g\<rparr>\<rparr>;
          g2 = g1\<lparr>Param := (Param g1)
                 \<lparr>VLLM_ModelName := Name (Param g1),
                  VLLM_ModelRunParams :=
                    (VLLM_ModelRunParams (Param g1))
                      (''load_format'' \<mapsto> LoadFormat g1,
                       ''config_format'' \<mapsto> ConfigFormat g1,
                       ''tokenizer_mode'' \<mapsto> TokenizerMode g1)\<rparr>\<rparr>;
          bpt = fst (calculateKVCacheTokenSize (ModelConfig g2));
          attnType = snd (calculateKVCacheTokenSize (ModelConfig g2))
      in g2\<lparr>Param := (Param g2)\<lparr>BytesPerToken := bpt, AttnType := attnType\<rparr>\<rparr>)"

subsection \<open>\<open>Generate\<close> and \<open>GeneratePreset\<close>\<close>

text \<open>
  The result is the error (\<open>nil, err\<close>) or the preset (\<open>&g.Param, nil\<close>), with the
  generator at the end and the requests sent.
\<close>

definition Generate ::
  "env \<Rightarrow> Generator \<times> requests \<Rightarrow> (error + PresetParam) \<times> Generator \<times> requests" where
  "Generate e gw =
     (case FetchModelMetadata e gw of
        (Some err, g1, w1) \<Rightarrow> (Inl err, g1, w1)
      | (None, g1, w1) \<Rightarrow>
          (let g2 = FinalizeParams (ParseModelMetadata e g1)
           in (Inr (Param g2), g2, w1)))"

definition GeneratePreset :: "env \<Rightarrow> string \<Rightarrow> string \<Rightarrow> (error + PresetParam) \<times> requests" where
  "GeneratePreset e modelRepo token =
     (if modelRepo = [] then (Inl ''model repo is required'', [])
      else (let r = Generate e (NewGenerator modelRepo token, [])
            in (fst r, snd (snd r))))"

section \<open>Reference definitions and example inputs\<close>

subsection \<open>The integer accessor as the specification words it\<close>

text \<open>
  What one value of the configuration is as an integer: a \<open>float64\<close> is converted (its
  fraction dropped), an \<open>int\<close> is taken as it is, a string is parsed as a decimal
  integer; nothing else yields an integer.
\<close>

fun coerceInt :: "iface \<Rightarrow> go_int option" where
  "coerceInt (VFloat64 v) = Some (float64_to_int v)"
| "coerceInt (VInt v) = Some v"
| "coerceInt (VString v) = Atoi v"
| "coerceInt _ = None"

text \<open>
  The first of the candidate keys, in their order, that is present with a value that
  yields an integer decides; the default is returned when no key does.
\<close>

definition spec_getInt :: "config \<Rightarrow> string list \<Rightarrow> go_int \<Rightarrow> go_int" where
  "spec_getInt config keys defaultVal =
     (case List.map_filter (\<lambda>key. Option.bind (config key) coerceInt) keys of
        [] \<Rightarrow> defaultVal
      | i # _ \<Rightarrow> i)"

subsection \<open>Example configurations\<close>

definition cfg_mla :: config where
  "cfg_mla = [''kv_lora_rank'' \<mapsto> VFloat64 512, ''qk_rope_head_dim'' \<mapsto> VFloat64 64,
              ''num_hidden_layers'' \<mapsto> VFloat64 61, ''num_attention_heads'' \<mapsto> VFloat64 128]"

definition cfg_gqa :: config where
  "cfg_gqa = [''hidden_size'' \<mapsto> VFloat64 4096, ''num_attention_heads'' \<mapsto> VFloat64 32,
              ''num_key_value_heads'' \<mapsto> VFloat64 8, ''num_hidden_layers'' \<mapsto> VFloat64 32]"

definition cfg_sentinel :: config where
  "cfg_sentinel = cfg_gqa(''kv_lora_rank'' \<mapsto> VFloat64 (- 3 / 2))"

definition cfg_ctx :: config where
  "cfg_ctx = [''max_position_embeddings'' \<mapsto> VString ''4k'', ''n_ctx'' \<mapsto> VString ''4096'',
              ''seq_length'' \<mapsto> VFloat64 (16383 / 2)]"

subsection \<open>Example file listings and surroundings\<close>


definition files_mixed :: "FileInfo list" where
  "files_mixed =
     [\<lparr>Path = ''model.safetensors'', Size = 70, Type = ''file''\<rparr>,
      \<lparr>Path = ''model.safetensors.index.json'', Size = 10, Type = ''file''\<rparr>,
      \<lparr>Path = ''pytorch_model.bin'', Size = 100, Type = ''file''\<rparr>,
      \<lparr>Path = ''README.md'', Size = 5, Type = ''file''\<rparr>]"

definition files_mistral :: "FileInfo list" where
  "files_mistral =
     [\<lparr>Path = ''consolidated.safetensors'', Size = 40, Type = ''file''\<rparr>,
      \<lparr>Path = ''model-00001-of-00002.safetensors'', Size = 20, Type = ''file''\<rparr>,
      \<lparr>Path = ''pytorch_model.bin'', Size = 100, Type = ''file''\<rparr>]"

definition files_consolidated_index :: "FileInfo list" where
  "files_consolidated_index =
     [\<lparr>Path = ''consolidated.safetensors'', Size = 40, Type = ''file''\<rparr>,
      \<lparr>Path = ''consolidated.safetensors.index.json'', Size = 10, Type = ''file''\<rparr>]"

text \<open>
  The filename pattern \<open>consolidated*.safetensors\<close> of the specification, read as a
  glob on the name of the file: the name begins with \<open>consolidated\<close>, ends with
  \<open>.safetensors\<close>, and the two do not overlap.
\<close>

definition vendorGlob :: "string \<Rightarrow> bool" where
  "vendorGlob path =
     (let name = lastPart path
      in HasPrefix name ''consolidated'' \<and> HasSuffix name ''.safetensors''
         \<and> length ''consolidated'' + length ''.safetensors'' \<le> length name)"

text \<open>
  A hub that answers the file listing with one response and every other request with
  another, whose bodies decode to the given listing and configuration.
\<close>

definition example_env ::
  "string \<Rightarrow> response \<Rightarrow> FileInfo list \<Rightarrow> response \<Rightarrow> config \<Rightarrow> env" where
  "example_env hf listing files answer cfg =
     \<lparr>HF_TOKEN = hf,
      NewRequest = (\<lambda>url. None),
      Do = (\<lambda>url auth. if HasSuffix url ''/tree/main?recursive=true'' then listing else answer),
      Unmarshal_files = (\<lambda>body. Inr files),
      Unmarshal_config = (\<lambda>body. Inr cfg),
      range_reasoningParserMap = reasoningParserMap\<rparr>"

definition env_ok :: env where
  "env_ok = example_env [] (Response 200 (Inr ''[]'')) files_mixed (Response 200 (Inr ''{}'')) cfg_gqa"

definition env_denied :: env where
  "env_denied = example_env [] (Response 403 (Inr [])) [] (Response 403 (Inr [])) Map.empty"

definition env_missing :: env where
  "env_missing = example_env [] (Response 404 (Inr [])) [] (Response 404 (Inr [])) Map.empty"

definition cfg_negative_layers :: config where
  "cfg_negative_layers = [''kv_lora_rank'' \<mapsto> VFloat64 512, ''num_hidden_layers'' \<mapsto> VFloat64 (- 1)]"

definition env_negative_layers :: env where
  "env_negative_layers =
     example_env [] (Response 200 (Inr ''[]'')) files_mixed (Response 200 (Inr ''{}''))
       cfg_negative_layers"

subsection \<open>Reference notions for sizes and runs\<close>

text \<open>
  An integer literal: an optional minus sign and one or more decimal digits. A
  well-formed quantity is an integer literal followed by \<open>Gi\<close>.
\<close>

definition integerLiteral :: "string \<Rightarrow> bool" where
  "integerLiteral s =
     (let ds = (if s \<noteq> [] \<and> hd s = CHR ''-'' then tl s else s)
      in ds \<noteq> [] \<and> list_all isDigit ds)"

definition wellformedGi :: "string \<Rightarrow> bool" where
  "wellformedGi s = (HasSuffix s ''Gi'' \<and> integerLiteral (TrimSuffix s ''Gi''))"

text \<open>\<open>elementsPerToken\<close> computed in the integers, without wrap-around.\<close>

definition kv_exact_elements :: "config \<Rightarrow> int" where
  "kv_exact_elements config =
     (if kv_kvLoraRank config \<noteq> - 1
      then sint (kv_kvLoraRank config) + sint (kv_qkRopeHeadDim config)
      else if 0 < sint (kv_attentionHeads config) \<and> 0 < sint (kv_kvHeads config)
              \<and> 0 < sint (kv_headDim config)
      then 2 * sint (kv_kvHeads config) * sint (kv_headDim config)
      else 0)"

text \<open>The configuration that a run of \<open>GeneratePreset\<close> has decoded.\<close>

definition accepted_config :: "env \<Rightarrow> string \<Rightarrow> string \<Rightarrow> config" where
  "accepted_config e modelRepo token =
     ModelConfig (fst (snd (Generate e (NewGenerator modelRepo token, []))))"

text \<open>
  Names for three expressions of \<open>FetchModelMetadata\<close>: the URL of the listing, the
  generator once the size is stored, and the URL of the configuration file.
\<close>

definition listURL :: "Generator \<Rightarrow> string" where
  "listURL g = HuggingFaceWebsite @ ''/api/models/'' @ ModelRepo g @ ''/tree/main?recursive=true''"

definition sized :: "Generator \<Rightarrow> FileInfo list \<Rightarrow> Generator" where
  "sized g2 selectedFiles =
     g2\<lparr>Param := (Param g2)
          \<lparr>ModelFileSize := formatModelFileSize (totalBytes selectedFiles),
           VLLM_ModelRunParams := Map.empty\<rparr>\<rparr>"

definition configURL :: "Generator \<Rightarrow> string \<Rightarrow> string" where
  "configURL g3 configFile =
     HuggingFaceWebsite @ ''/'' @ ModelRepo g3 @ ''/resolve/main/'' @ configFile"

text \<open>A generator whose \<open>ModelFileSize\<close> is the given string.\<close>

definition gen_with_size :: "string \<Rightarrow> Generator" where
  "gen_with_size sz =
     (NewGenerator ''org/m'' [])\<lparr>Param := (Param (NewGenerator ''org/m'' []))\<lparr>ModelFileSize := sz\<rparr>\<rparr>"

definition env_empty_config :: env where
  "env_empty_config =
     example_env [] (Response 200 (Inr ''[]'')) files_mixed (Response 200 (Inr ''{}'')) Map.empty"

text \<open>The presets that three example runs return.\<close>

definition preset_ok :: PresetParam where
  "preset_ok = projr (fst (GeneratePreset env_ok ''org/m'' []))"

definition preset_empty_config :: PresetParam where
  "preset_empty_config = projr (fst (GeneratePreset env_empty_config ''org/m'' []))"

definition preset_negative_layers :: PresetParam where
  "preset_negative_layers = projr (fst (GeneratePreset env_negative_layers ''org/m'' []))"

section \<open>Properties\<close>

subsection \<open>Words and conversions\<close>

lemma sint_in_range:
  "- (2 ^ 63) \<le> m \<Longrightarrow> m < 2 ^ 63 \<Longrightarrow> sint (word_of_int m :: 64 word) = m"
  by (simp add: sint_sbintrunc' signed_take_bit_int_eq_self)

lemma truncZero_of_int: "truncZero (of_int m) = m"
  by (simp add: truncZero_def)

lemmas go_arith = float64_to_int_def truncZero_def go_div_def signed_divide_int_def ceiling_def

lemmas Atoi_eval = Atoi_def signed_decimal_def decimal_def digitVal_def isDigit_def

subsection \<open>The integer accessor\<close>

lemma getInt_Cons:
  "getInt config (key # keys) d =
     (case Option.bind (config key) coerceInt of Some i \<Rightarrow> i | None \<Rightarrow> getInt config keys d)"
  by (cases "config key"; simp split: iface.splits option.splits)

lemma getInt_spec: "getInt config keys d = spec_getInt config keys d"
proof (induction keys)
  case Nil
  show ?case by (simp add: spec_getInt_def List.map_filter_simps)
next
  case (Cons key keys)
  show ?case
  proof (cases "Option.bind (config key) coerceInt")
    case None
    then show ?thesis using Cons.IH
      by (simp only: getInt_Cons) (simp add: spec_getInt_def List.map_filter_simps)
  next
    case (Some i)
    then show ?thesis
      by (simp only: getInt_Cons) (simp add: spec_getInt_def List.map_filter_simps)
  qed
qed

lemma getInt_remove_key:
  "k \<notin> set keys \<Longrightarrow> getInt (config(k := None)) keys d = getInt config keys d"
  by (induction keys) (auto simp del: getInt.simps(2) simp add: getInt_Cons split: option.splits)

text \<open>
  C7. For every configuration, list of candidate keys and default, \<open>getInt\<close> returns
  what the first key, in the order of the list, that is present with a value that
  yields an integer yields: a \<open>float64\<close> converted (truncated towards zero, when the
  truncation fits \<open>int\<close>), an \<open>int\<close> as it is, a string parsed by \<open>Atoi\<close>. It returns
  the default when no candidate key yields an integer. A present value that yields
  none (another type, a string that is not a decimal integer) is passed over.
  \<open>ModelTokenLimit\<close> is read through \<open>max_position_embeddings\<close>, \<open>n_ctx\<close>, \<open>seq_length\<close>,
  \<open>max_seq_len\<close>, \<open>max_sequence_length\<close> with the default 2048.
\<close>

theorem getInt_first_coercible:
  "getInt config keys defaultVal = spec_getInt config keys defaultVal \<and>
   ((\<forall>key \<in> set keys. Option.bind (config key) coerceInt = None) \<longrightarrow>
      getInt config keys defaultVal = defaultVal) \<and>
   (- (2 ^ 63) \<le> truncZero v \<and> truncZero v < 2 ^ 63 \<longrightarrow>
      sint (float64_to_int v) = truncZero v) \<and>
   ModelTokenLimit (Param (ParseModelMetadata e g)) =
     getInt (ModelConfig g)
       [''max_position_embeddings'', ''n_ctx'', ''seq_length'', ''max_seq_len'',
        ''max_sequence_length''] 2048"
proof -
  have none: "(\<forall>key \<in> set keys. Option.bind (config key) coerceInt = None) \<longrightarrow>
      getInt config keys defaultVal = defaultVal"
    by (induction keys) (simp_all add: getInt_Cons del: getInt.simps(2))
  have trunc: "- (2 ^ 63) \<le> truncZero v \<and> truncZero v < 2 ^ 63 \<longrightarrow>
      sint (float64_to_int v) = truncZero v"
    by (simp add: float64_to_int_def sint_in_range)
  have limit: "ModelTokenLimit (Param (ParseModelMetadata e g)) =
     getInt (ModelConfig g)
       [''max_position_embeddings'', ''n_ctx'', ''seq_length'', ''max_seq_len'',
        ''max_sequence_length''] 2048"
    by (simp add: ParseModelMetadata_def DefaultModelTokenLimit_def Let_def del: getInt.simps)
  show ?thesis
    using getInt_spec [of config keys defaultVal] none trunc limit by blast
qed

theorem getInt_first_coercible_witness:
  "getInt cfg_ctx [''max_position_embeddings'', ''n_ctx'', ''seq_length''] 2048 = 4096 \<and>
   getInt cfg_ctx [''seq_length'', ''n_ctx''] 2048 = 8191 \<and>
   Option.bind (cfg_ctx ''max_position_embeddings'') coerceInt = None \<and>
   getInt cfg_ctx [''max_position_embeddings''] 2048 = 2048 \<and>
   sint (float64_to_int (16383 / 2)) = 8191"
proof -
  have a: "Atoi ''4k'' = None" "Atoi ''4096'' = Some 4096"
    by (simp_all add: Atoi_eval)
  have t: "truncZero (16383 / 2) = 8191"
    by (simp add: truncZero_def)
  have s1: "spec_getInt cfg_ctx [''max_position_embeddings'', ''n_ctx'', ''seq_length''] 2048 = 4096"
    by (simp add: spec_getInt_def cfg_ctx_def List.map_filter_simps a)
  have s2: "spec_getInt cfg_ctx [''seq_length'', ''n_ctx''] 2048 = 8191"
    by (simp add: spec_getInt_def cfg_ctx_def List.map_filter_simps a float64_to_int_def t)
  have n: "Option.bind (cfg_ctx ''max_position_embeddings'') coerceInt = None"
    by (simp add: cfg_ctx_def a)
  have g1: "getInt cfg_ctx [''max_position_embeddings'', ''n_ctx'', ''seq_length''] 2048 = 4096"
    using getInt_first_coercible
            [of cfg_ctx "[''max_position_embeddings'', ''n_ctx'', ''seq_length'']" 2048,
             THEN conjunct1]
    by (simp only: s1)
  have g2: "getInt cfg_ctx [''seq_length'', ''n_ctx''] 2048 = 8191"
    using getInt_first_coercible [of cfg_ctx "[''seq_length'', ''n_ctx'']" 2048, THEN conjunct1]
    by (simp only: s2)
  have g3: "getInt cfg_ctx [''max_position_embeddings''] 2048 = 2048"
    using getInt_first_coercible
            [of cfg_ctx "[''max_position_embeddings'']" 2048, THEN conjunct2, THEN conjunct1] n
    by (simp del: getInt.simps)
  have g4: "sint (float64_to_int (16383 / 2)) = 8191"
    using getInt_first_coercible
            [of _ _ _ "16383 / 2", THEN conjunct2, THEN conjunct2, THEN conjunct1]
    by (simp add: t)
  show ?thesis
    using g1 g2 n g3 g4 by (simp only: simp_thms)
qed

subsection \<open>The attention analyzer\<close>

lemmas kv_locals =
  kv_hiddenSize_def kv_hiddenLayers_def kv_attentionHeads_def kv_kvHeads_read_def
  kv_headDim_read_def kv_headDim_def kv_kvLoraRank_def kv_qkRopeHeadDim_def kv_kvHeads_def

lemmas kv_result =
  calculateKVCacheTokenSize_def kv_attnType_def kv_elementsPerToken_def kv_classify_def

text \<open>
  C1. For every configuration the analyzer decides in this order. When the value read
  for \<open>kv_lora_rank\<close> is not the sentinel \<open>-1\<close>, the type is \<open>MLA\<close> and
  \<open>elementsPerToken = kvLoraRank + qkRopeHeadDim\<close> (with \<open>qkRopeHeadDim = 0\<close> when the key
  is missing), whatever the head counts are. Otherwise, when \<open>attentionHeads > 0\<close>,
  \<open>kvHeads > 0\<close> and \<open>headDim > 0\<close>, \<open>elementsPerToken = 2 * kvHeads * headDim\<close> and the
  type is \<open>MHA\<close> when \<open>attentionHeads = kvHeads\<close>, \<open>MQA\<close> when \<open>kvHeads = 1\<close>, else \<open>GQA\<close>.
  In every case the size returned is \<open>elementsPerToken * hiddenLayers * 2\<close> (in the
  arithmetic of \<open>int\<close>).
\<close>

theorem kvcache_decision_order:
  "(kv_kvLoraRank config \<noteq> - 1 \<longrightarrow>
      kv_attnType config = ''MLA'' \<and>
      kv_elementsPerToken config = kv_kvLoraRank config + kv_qkRopeHeadDim config) \<and>
   (config ''qk_rope_head_dim'' = None \<longrightarrow> kv_qkRopeHeadDim config = 0) \<and>
   (kv_kvLoraRank config = - 1 \<and> 0 < sint (kv_attentionHeads config) \<and>
    0 < sint (kv_kvHeads config) \<and> 0 < sint (kv_headDim config) \<longrightarrow>
      kv_elementsPerToken config = 2 * kv_kvHeads config * kv_headDim config \<and>
      kv_attnType config =
        (if kv_attentionHeads config = kv_kvHeads config then ''MHA''
         else if kv_kvHeads config = 1 then ''MQA'' else ''GQA'')) \<and>
   calculateKVCacheTokenSize config =
     (kv_elementsPerToken config * kv_hiddenLayers config * 2, kv_attnType config)"
  by (simp add: kv_result kv_qkRopeHeadDim_def)

theorem kvcache_decision_order_witness:
  "kv_kvLoraRank cfg_mla \<noteq> - 1 \<and> 0 < sint (kv_attentionHeads cfg_mla) \<and>
   calculateKVCacheTokenSize cfg_mla = ((512 + 64) * 61 * 2, ''MLA'') \<and>
   kv_kvLoraRank cfg_gqa = - 1 \<and> kv_attentionHeads cfg_gqa = 32 \<and> kv_kvHeads cfg_gqa = 8 \<and>
   kv_headDim cfg_gqa = 128 \<and>
   calculateKVCacheTokenSize cfg_gqa = (2 * 8 * 128 * 32 * 2, ''GQA'')"
proof -
  have mla: "kv_kvLoraRank cfg_mla = 512" "kv_qkRopeHeadDim cfg_mla = 64"
    "kv_hiddenLayers cfg_mla = 61" "kv_attentionHeads cfg_mla = 128"
    by (simp_all add: cfg_mla_def kv_locals go_arith)
  have gqa: "kv_kvLoraRank cfg_gqa = - 1" "kv_attentionHeads cfg_gqa = 32"
    "kv_kvHeads cfg_gqa = 8" "kv_headDim cfg_gqa = 128" "kv_hiddenLayers cfg_gqa = 32"
    by (simp_all add: cfg_gqa_def kv_locals go_arith)
  show ?thesis
    using kvcache_decision_order [of cfg_mla] kvcache_decision_order [of cfg_gqa]
    by (simp add: mla gqa)
qed

text \<open>
  C10. When the configuration has a \<open>kv_lora_rank\<close> whose value yields exactly \<open>-1\<close>, or
  yields no integer at all, the value read is the sentinel \<open>-1\<close>: the analyzer never
  answers \<open>MLA\<close>, and its result is the one for the configuration without the key.
\<close>

theorem kv_lora_rank_sentinel:
  assumes "config ''kv_lora_rank'' = Some v"
    and "coerceInt v = Some (- 1) \<or> coerceInt v = None"
  shows "kv_kvLoraRank config = - 1 \<and>
         kv_attnType config \<noteq> ''MLA'' \<and>
         calculateKVCacheTokenSize config =
           calculateKVCacheTokenSize (config(''kv_lora_rank'' := None))"
proof -
  have sentinel: "kv_kvLoraRank config = - 1"
    using assms by (auto simp add: kv_kvLoraRank_def getInt_Cons simp del: getInt.simps(2))
  then have not_mla: "kv_attnType config \<noteq> ''MLA''"
    by (simp add: kv_attnType_def kv_classify_def)
  have absent: "kv_kvLoraRank (config(''kv_lora_rank'' := None)) = - 1"
    by (simp add: kv_kvLoraRank_def)
  have same:
    "kv_hiddenSize (config(''kv_lora_rank'' := None)) = kv_hiddenSize config"
    "kv_hiddenLayers (config(''kv_lora_rank'' := None)) = kv_hiddenLayers config"
    "kv_attentionHeads (config(''kv_lora_rank'' := None)) = kv_attentionHeads config"
    "kv_kvHeads_read (config(''kv_lora_rank'' := None)) = kv_kvHeads_read config"
    "kv_headDim_read (config(''kv_lora_rank'' := None)) = kv_headDim_read config"
    "kv_qkRopeHeadDim (config(''kv_lora_rank'' := None)) = kv_qkRopeHeadDim config"
    unfolding kv_hiddenSize_def kv_hiddenLayers_def kv_attentionHeads_def kv_kvHeads_read_def
      kv_headDim_read_def kv_qkRopeHeadDim_def
    by (simp_all add: getInt_remove_key del: getInt.simps(2))
  have derived:
    "kv_headDim (config(''kv_lora_rank'' := None)) = kv_headDim config"
    "kv_kvHeads (config(''kv_lora_rank'' := None)) = kv_kvHeads config"
    by (simp_all add: kv_headDim_def kv_kvHeads_def same)
  have "calculateKVCacheTokenSize config =
        calculateKVCacheTokenSize (config(''kv_lora_rank'' := None))"
    by (auto simp add: kv_result sentinel absent same derived)
  with sentinel not_mla show ?thesis by simp
qed

theorem kv_lora_rank_sentinel_witness:
  "cfg_sentinel ''kv_lora_rank'' = Some (VFloat64 (- 3 / 2)) \<and>
   coerceInt (VFloat64 (- 3 / 2)) = Some (- 1) \<and>
   kv_attnType cfg_sentinel \<noteq> ''MLA'' \<and>
   calculateKVCacheTokenSize cfg_sentinel = calculateKVCacheTokenSize cfg_gqa"
proof -
  have v: "cfg_sentinel ''kv_lora_rank'' = Some (VFloat64 (- 3 / 2))"
    by (simp add: cfg_sentinel_def)
  have c: "coerceInt (VFloat64 (- 3 / 2)) = Some (- 1)"
    by (simp add: go_arith)
  have r: "cfg_sentinel(''kv_lora_rank'' := None) = cfg_gqa"
    by (simp add: cfg_sentinel_def cfg_gqa_def)
  have d: "coerceInt (VFloat64 (- 3 / 2)) = Some (- 1) \<or> coerceInt (VFloat64 (- 3 / 2)) = None"
    using c by simp
  show ?thesis
    using kv_lora_rank_sentinel [of cfg_sentinel "VFloat64 (- 3 / 2)", OF v d] v c
    by (simp add: r)
qed

subsection \<open>Strings and patterns\<close>

lemma HasPrefix_self_append [simp]: "HasPrefix (p @ s) p"
  by (simp add: HasPrefix_def)

lemma HasSuffix_append [simp]: "HasSuffix (a @ suffix) suffix"
  by (simp add: HasSuffix_def)

lemma HasSuffix_iff: "HasSuffix s suffix \<longleftrightarrow> (\<exists>a. s = a @ suffix)"
proof
  assume "HasSuffix s suffix"
  then have "s = take (length s - length suffix) s @ suffix"
    by (metis HasSuffix_def append_take_drop_id)
  then show "\<exists>a. s = a @ suffix" ..
next
  assume "\<exists>a. s = a @ suffix"
  then show "HasSuffix s suffix" by auto
qed

lemma HasPrefix_dotStarThen: "HasPrefix s lit \<Longrightarrow> dotStarThen lit s"
  by (cases s) (simp_all add: HasPrefix_def)

lemma somewhere_append: "P s \<Longrightarrow> somewhere P (a @ s)"
proof (induction a)
  case Nil
  then show ?case by (cases s) simp_all
next
  case (Cons c a)
  then show ?case by simp
qed

lemma HasSuffix_safetensorRegex:
  assumes "HasSuffix s ''.safetensors''"
  shows "safetensorRegex s"
proof -
  from assms obtain a where s: "s = a @ ''.safetensors''"
    unfolding HasSuffix_iff by blast
  have "dotStarThen ''.safetensors'' ''.safetensors''"
    by (rule HasPrefix_dotStarThen) (simp add: HasPrefix_def)
  then show ?thesis
    unfolding safetensorRegex_def s by (rule somewhere_append)
qed

lemma filter_detect:
  "onlySafetensors (filter (\<lambda>f. safetensorRegex (Path f) \<or> binRegex (Path f)) files) =
   filter (\<lambda>f. HasSuffix (Path f) ''.safetensors'') files"
  unfolding onlySafetensors_def filter_filter
  by (rule filter_cong) (auto simp add: HasSuffix_safetensorRegex)


lemma TrimSuffix_append [simp]: "TrimSuffix (a @ suffix) suffix = a"
  by (simp add: TrimSuffix_def)

lemma HasSuffix_Cons_append [simp]: "HasSuffix (c # a @ suffix) suffix"
  using HasSuffix_append [of "c # a" suffix] by simp

lemma TrimSuffix_Cons_append [simp]: "TrimSuffix (c # a @ suffix) suffix = c # a"
  using TrimSuffix_append [of "c # a" suffix] by simp

lemmas regex_eval = safetensorRegex_def binRegex_def mistralRegex_def HasPrefix_def HasSuffix_def

lemma paths_eval:
  "mistralRegex ''consolidated.safetensors''"
  "\<not> mistralRegex ''model-00001-of-00002.safetensors''"
  "\<not> mistralRegex ''pytorch_model.bin''"
  "\<not> mistralRegex ''model.safetensors''"
  "\<not> mistralRegex ''model.safetensors.index.json''"
  "\<not> mistralRegex ''README.md''"
  "safetensorRegex ''model.safetensors.index.json''"
  "binRegex ''pytorch_model.bin''"
  "\<not> binRegex ''model.safetensors.index.json''"
  "\<not> safetensorRegex ''pytorch_model.bin''"
  by (simp_all add: regex_eval)

subsection \<open>Tool-call parser selection\<close>

lemma foldl_overwrite:
  "foldl (\<lambda>r p. if P p then g p else r) c xs =
     (if filter P xs = [] then c else g (last (filter P xs)))"
  by (induction xs rule: rev_induct) simp_all

lemma sorted_last_Max:
  fixes ys :: "'a::linorder list"
  assumes "sorted ys" "ys \<noteq> []"
  shows "last ys = Max (set ys)"
proof -
  have "\<forall>y \<in> set ys. y \<le> last ys"
    using assms
    by (induction ys) (auto simp add: order_trans split: if_splits)
  then show ?thesis
    using assms(2) by (intro Max_eqI [symmetric]) auto
qed

text \<open>
  C5. For every model name and table, the tool-call parser is chosen by going through
  the keys in sorted order and overwriting the result at every key that is a prefix
  of the name. So when some key matches, the value of the greatest matching key in
  the lexicographic order is returned, and the field keeps its value when none
  matches. \<open>ParseModelMetadata\<close> does this with \<open>toolCallParserMap\<close> and the name of
  the preset; the name \<open>qwen3-coder-30b-a3b-instruct\<close> gets the parser of \<open>qwen3-coder\<close>,
  not that of \<open>qwen3\<close>.
\<close>

theorem toolcall_last_sorted_match:
  "(filter (HasPrefix name) (map fst table) \<noteq> [] \<longrightarrow>
      selectToolCallParser table name current =
        lookup table (Max (set (filter (HasPrefix name) (map fst table))))) \<and>
   (filter (HasPrefix name) (map fst table) = [] \<longrightarrow>
      selectToolCallParser table name current = current) \<and>
   ToolCallParser (Param (ParseModelMetadata e g)) =
     selectToolCallParser toolCallParserMap (Name (Param g)) (ToolCallParser (Param g))"
proof -
  let ?P = "HasPrefix name"
  let ?keys = "map fst table"
  have sel: "selectToolCallParser table name current =
      (if filter ?P (sort ?keys) = [] then current
       else lookup table (last (filter ?P (sort ?keys))))"
    by (simp add: selectToolCallParser_def foldl_overwrite)
  have set_eq: "set (filter ?P (sort ?keys)) = set (filter ?P ?keys)"
    by simp
  then have empty_iff: "filter ?P (sort ?keys) = [] \<longleftrightarrow> filter ?P ?keys = []"
    by (metis set_empty)
  have some: "selectToolCallParser table name current =
                lookup table (Max (set (filter ?P ?keys)))"
    if "filter ?P ?keys \<noteq> []"
  proof -
    from that empty_iff have ne: "filter ?P (sort ?keys) \<noteq> []" by simp
    have "sorted (filter ?P (sort ?keys))"
      by (simp add: sorted_filter [where f = "\<lambda>x. x", simplified])
    from sorted_last_Max [OF this ne]
    have "last (filter ?P (sort ?keys)) = Max (set (filter ?P ?keys))"
      by (simp only: set_eq)
    with sel ne show ?thesis by simp
  qed
  have none: "selectToolCallParser table name current = current"
    if "filter ?P ?keys = []"
    using that sel empty_iff by simp
  have parse: "ToolCallParser (Param (ParseModelMetadata e g)) =
     selectToolCallParser toolCallParserMap (Name (Param g)) (ToolCallParser (Param g))"
    by (simp add: ParseModelMetadata_def Let_def del: getInt.simps)
  from some none parse show ?thesis by blast
qed

lemma matching_qwen3_coder:
  "filter (HasPrefix ''qwen3-coder-30b-a3b-instruct'') (map fst toolCallParserMap) =
     [''qwen3'', ''qwen3-coder'']"
  by code_simp

lemma max_qwen3_coder: "Max (set [''qwen3'', ''qwen3-coder'']) = ''qwen3-coder''"
  by code_simp

lemma lookup_qwen3_coder: "lookup toolCallParserMap ''qwen3-coder'' = ''qwen3_xml''"
  by code_simp

theorem toolcall_last_sorted_match_witness:
  "filter (HasPrefix ''qwen3-coder-30b-a3b-instruct'') (map fst toolCallParserMap) \<noteq> [] \<and>
   Max (set (filter (HasPrefix ''qwen3-coder-30b-a3b-instruct'') (map fst toolCallParserMap)))
     = ''qwen3-coder'' \<and>
   selectToolCallParser toolCallParserMap ''qwen3-coder-30b-a3b-instruct'' [] = ''qwen3_xml'' \<and>
   lookup toolCallParserMap ''qwen3'' = ''hermes''"
proof -
  have h: "lookup toolCallParserMap ''qwen3'' = ''hermes''"
    by code_simp
  show ?thesis
    using toolcall_last_sorted_match [of "''qwen3-coder-30b-a3b-instruct''" toolCallParserMap "[]", THEN conjunct1]
    by (simp only: matching_qwen3_coder max_qwen3_coder lookup_qwen3_coder h) simp
qed

subsection \<open>Fetching\<close>

lemma digits_eval:
  "digits 403 = ''403''" "digits 404 = ''404''"
  by (simp_all add: digits.simps digitChar_def)

lemmas env_eval = example_env_def env_ok_def env_denied_def env_missing_def

lemma auth_eval:
  "getAuthHeader env_denied (NewGenerator ''org/m'' ''secret'') = ''Bearer secret''"
  "getAuthHeader env_denied (NewGenerator ''org/m'' []) = []"
  "getAuthHeader env_missing (NewGenerator ''org/m'' []) = []"
  by (simp_all add: getAuthHeader_def NewGenerator_def env_eval Let_def)

lemma env_denied_eval:
  "NewRequest env_denied url = None"
  "Do env_denied url auth = Response 403 (Inr [])"
  by (simp_all add: env_eval)

lemma env_missing_eval:
  "NewRequest env_missing url = None"
  "Do env_missing url auth = Response 404 (Inr [])"
  by (simp_all add: env_eval)

lemma flag_initial: "\<not> DownloadAuthRequired (Param (NewGenerator modelRepo token))"
  by (simp add: NewGenerator_def Let_def)

lemma fetchURL_flag_only_on_401_403:
  "fst (snd (fetchURL e url (g, w))) = g \<or>
   (fst (snd (fetchURL e url (g, w))) = g\<lparr>Param := (Param g)\<lparr>DownloadAuthRequired := True\<rparr>\<rparr> \<and>
    NewRequest e url = None \<and>
    (\<exists>body. Do e url (getAuthHeader e g) = Response 401 body \<or>
            Do e url (getAuthHeader e g) = Response 403 body))"
  by (auto simp add: fetchURL_def Let_def split: option.splits response.splits)

text \<open>
  C6, amended. \<open>fetchURL\<close> changes the generator only by setting \<open>DownloadAuthRequired\<close>,
  and it does so exactly when the response has status 401 or 403, whether or not a
  credential was attached. On 401 or 403 without a credential the fetch fails with the
  error \<open>authentication required for accessing URL\<close>; with a credential it fails with
  the error \<open>failed to fetch URL: status N\<close>. On any other status than 200 it fails with
  the latter error and leaves the generator as it was.
\<close>

theorem fetchURL_status_handling:
  assumes "NewRequest e url = None"
    and "Do e url (getAuthHeader e g) = Response status body"
  shows
    "(status = 401 \<or> status = 403 \<longrightarrow>
        DownloadAuthRequired (Param (fst (snd (fetchURL e url (g, w))))) \<and>
        fst (fetchURL e url (g, w)) =
          Inl (if getAuthHeader e g = [] then ''authentication required for accessing '' @ url
               else ''failed to fetch '' @ url @ '': status '' @ Sprintf_d (sint status))) \<and>
     (status \<noteq> 401 \<and> status \<noteq> 403 \<longrightarrow> fst (snd (fetchURL e url (g, w))) = g) \<and>
     (status \<noteq> 200 \<and> status \<noteq> 401 \<and> status \<noteq> 403 \<longrightarrow>
        fst (fetchURL e url (g, w)) =
          Inl (''failed to fetch '' @ url @ '': status '' @ Sprintf_d (sint status))) \<and>
     (status = 200 \<longrightarrow> fst (fetchURL e url (g, w)) = body) \<and>
     (fst (snd (fetchURL e' url' (g, w))) = g \<or>
      fst (snd (fetchURL e' url' (g, w))) =
        g\<lparr>Param := (Param g)\<lparr>DownloadAuthRequired := True\<rparr>\<rparr> \<and>
      NewRequest e' url' = None \<and>
      (\<exists>body'. Do e' url' (getAuthHeader e' g) = Response 401 body' \<or>
               Do e' url' (getAuthHeader e' g) = Response 403 body'))"
proof -
  have "(status = 401 \<or> status = 403 \<longrightarrow>
        DownloadAuthRequired (Param (fst (snd (fetchURL e url (g, w))))) \<and>
        fst (fetchURL e url (g, w)) =
          Inl (if getAuthHeader e g = [] then ''authentication required for accessing '' @ url
               else ''failed to fetch '' @ url @ '': status '' @ Sprintf_d (sint status))) \<and>
     (status \<noteq> 401 \<and> status \<noteq> 403 \<longrightarrow> fst (snd (fetchURL e url (g, w))) = g) \<and>
     (status \<noteq> 200 \<and> status \<noteq> 401 \<and> status \<noteq> 403 \<longrightarrow>
        fst (fetchURL e url (g, w)) =
          Inl (''failed to fetch '' @ url @ '': status '' @ Sprintf_d (sint status))) \<and>
     (status = 200 \<longrightarrow> fst (fetchURL e url (g, w)) = body)"
    using assms by (auto simp add: fetchURL_def Let_def)
  with fetchURL_flag_only_on_401_403 [of e' url' g w] show ?thesis
    by (simp only: simp_thms)
qed

theorem fetchURL_status_handling_witness:
  "DownloadAuthRequired
     (Param (fst (snd (fetchURL env_denied ''https://huggingface.co/org/m/resolve/main/config.json''
                         (NewGenerator ''org/m'' [], []))))) \<and>
   fst (fetchURL env_denied ''https://huggingface.co/org/m/resolve/main/config.json''
          (NewGenerator ''org/m'' [], [])) =
     Inl ''authentication required for accessing https://huggingface.co/org/m/resolve/main/config.json'' \<and>
   fst (fetchURL env_denied ''https://huggingface.co/org/m/resolve/main/config.json''
          (NewGenerator ''org/m'' ''secret'', [])) =
     Inl ''failed to fetch https://huggingface.co/org/m/resolve/main/config.json: status 403'' \<and>
   fst (snd (fetchURL env_missing ''https://huggingface.co/org/m/resolve/main/config.json''
               (NewGenerator ''org/m'' [], []))) = NewGenerator ''org/m'' [] \<and>
   fst (fetchURL env_missing ''https://huggingface.co/org/m/resolve/main/config.json''
          (NewGenerator ''org/m'' [], [])) =
     Inl ''failed to fetch https://huggingface.co/org/m/resolve/main/config.json: status 404''"
proof -
  let ?url = "''https://huggingface.co/org/m/resolve/main/config.json''"
  let ?g = "NewGenerator ''org/m'' []"
  let ?gs = "NewGenerator ''org/m'' ''secret''"
  have d: "Do env_denied ?url (getAuthHeader env_denied ?g) = Response 403 (Inr [])"
    by (rule env_denied_eval)
  have ds: "Do env_denied ?url (getAuthHeader env_denied ?gs) = Response 403 (Inr [])"
    by (rule env_denied_eval)
  have m: "Do env_missing ?url (getAuthHeader env_missing ?g) = Response 404 (Inr [])"
    by (rule env_missing_eval)
  note a = fetchURL_status_handling [OF env_denied_eval(1) d, of "[]", THEN conjunct1]
  note b = fetchURL_status_handling [OF env_denied_eval(1) ds, of "[]", THEN conjunct1]
  note c = fetchURL_status_handling [OF env_missing_eval(1) m, of "[]", THEN conjunct2]
  from a b c show ?thesis
    by (simp add: auth_eval Sprintf_d_def digits_eval)
qed

text \<open>
  C6 as stated fails: a fetch that attached a credential and receives 403 sets
  \<open>DownloadAuthRequired\<close> all the same.
\<close>

theorem fetchURL_status_handling_counterexample:
  "getAuthHeader env_denied (NewGenerator ''org/m'' ''secret'') = ''Bearer secret'' \<and>
   \<not> DownloadAuthRequired (Param (NewGenerator ''org/m'' ''secret'')) \<and>
   DownloadAuthRequired
     (Param (fst (snd (fetchURL env_denied ''https://huggingface.co/org/m/resolve/main/config.json''
                         (NewGenerator ''org/m'' ''secret'', []))))) \<and>
   fst (fetchURL env_denied ''https://huggingface.co/org/m/resolve/main/config.json''
          (NewGenerator ''org/m'' ''secret'', [])) =
     Inl ''failed to fetch https://huggingface.co/org/m/resolve/main/config.json: status 403''"
  by (simp add: auth_eval flag_initial fetchURL_def Let_def env_denied_eval Sprintf_d_def
        digits_eval)

text \<open>
  C8. With an empty model repository, and any token and surroundings, \<open>GeneratePreset\<close>
  returns the error \<open>model repo is required\<close> and no preset, and has sent no request.
\<close>

theorem GeneratePreset_empty_repo:
  "GeneratePreset e [] token = (Inl ''model repo is required'', [])"
  by (simp add: GeneratePreset_def)

theorem GeneratePreset_empty_repo_witness:
  "GeneratePreset env_ok [] ''secret'' = (Inl ''model repo is required'', [])"
  using GeneratePreset_empty_repo [of env_ok "''secret''"] .

subsection \<open>Decimal digits\<close>

lemma digit_cases:
  assumes "d < (10::nat)"
  obtains "d = 0" | "d = 1" | "d = 2" | "d = 3" | "d = 4" | "d = 5" | "d = 6" | "d = 7"
    | "d = 8" | "d = 9"
proof -
  have "d = 0 \<or> d = 1 \<or> d = 2 \<or> d = 3 \<or> d = 4 \<or> d = 5 \<or> d = 6 \<or> d = 7 \<or> d = 8 \<or> d = 9"
    using assms by arith
  then show thesis using that by blast
qed

lemma isDigit_digitChar: "d < 10 \<Longrightarrow> isDigit (digitChar d)"
  by (erule digit_cases) (simp_all add: digitChar_def isDigit_def)

lemma digitVal_digitChar: "d < 10 \<Longrightarrow> digitVal (digitChar d) = d"
  by (erule digit_cases) (simp_all add: digitChar_def digitVal_def)

lemma digits_nonempty: "digits n \<noteq> []"
  by (subst digits.simps) simp

lemma digits_all: "list_all isDigit (digits n)"
proof (induction n rule: digits.induct)
  case (1 n)
  show ?case
  proof (cases "n < 10")
    case True
    then show ?thesis by (subst digits.simps) (simp add: isDigit_digitChar)
  next
    case False
    with 1 show ?thesis by (subst digits.simps) (simp add: isDigit_digitChar)
  qed
qed

lemma decimal_snoc: "decimal (ds @ [c]) = 10 * decimal ds + digitVal c"
  by (simp add: decimal_def)

lemma decimal_digits: "decimal (digits n) = n"
proof (induction n rule: digits.induct)
  case (1 n)
  show ?case
  proof (cases "n < 10")
    case True
    then show ?thesis
      by (subst digits.simps) (simp add: decimal_def digitVal_digitChar)
  next
    case False
    with 1 have "decimal (digits (n div 10)) = n div 10" by simp
    with False show ?thesis
      by (subst digits.simps) (simp add: decimal_snoc digitVal_digitChar)
  qed
qed

lemma not_sign_if_digit: "isDigit c \<Longrightarrow> c \<noteq> CHR ''-'' \<and> c \<noteq> CHR ''+''"
  by (auto simp add: isDigit_def)

lemma hd_digits: "hd (digits n) \<noteq> CHR ''-'' \<and> hd (digits n) \<noteq> CHR ''+''"
proof -
  have "isDigit (hd (digits n))"
    using digits_all [of n] digits_nonempty [of n]
    by (cases "digits n") simp_all
  then show ?thesis by (rule not_sign_if_digit)
qed

lemma signed_decimal_digits: "signed_decimal (digits n) = Some (int n)"
  using hd_digits [of n]
  by (simp add: signed_decimal_def Let_def digits_nonempty digits_all decimal_digits)

lemma signed_decimal_minus_digits: "signed_decimal (CHR ''-'' # digits n) = Some (- int n)"
  by (simp add: signed_decimal_def Let_def digits_nonempty digits_all decimal_digits)

subsection \<open>The \<open>float64\<close> of an integer\<close>

lemma bitlen_le: "n < 2 ^ k \<Longrightarrow> bitlen n \<le> k"
proof (induction k arbitrary: n)
  case 0
  then show ?case by (subst bitlen.simps) simp
next
  case (Suc k)
  then have "n div 2 < 2 ^ k" by simp
  then have "bitlen (n div 2) \<le> k" by (rule Suc.IH)
  then show ?case by (subst bitlen.simps) simp
qed

lemma float64_of_int_exact: "\<bar>x\<bar> < 2 ^ 53 \<Longrightarrow> float64_of_int x = x"
proof -
  assume "\<bar>x\<bar> < 2 ^ 53"
  then have "nat \<bar>x\<bar> < 2 ^ 53" by (simp add: nat_less_iff)
  then have "bitlen (nat \<bar>x\<bar>) \<le> 53" by (rule bitlen_le)
  then show ?thesis by (simp add: float64_of_int_def Let_def)
qed


lemma bitlen_pow2: "bitlen (2 ^ k) = Suc k"
proof (induction k)
  case 0
  show ?case by (simp add: bitlen.simps)
next
  case (Suc k)
  have "bitlen (2 ^ Suc k) = Suc (bitlen (2 ^ Suc k div 2))"
    by (subst bitlen.simps) simp
  with Suc show ?case by simp
qed

lemma round_to_even_2_53: "round_to_even (2 ^ 53) 1 = 2 ^ 53"
  by (simp add: round_to_even_def Let_def)


lemma float64_of_int_2_53: "float64_of_int (2 ^ 53) = 2 ^ 53"
proof -
  have n: "nat \<bar>2 ^ 53 :: int\<bar> = (2 ^ 53 :: nat)" by simp
  have b: "bitlen (2 ^ 53) = 54" using bitlen_pow2 [of 53] by simp
  have r: "round_to_even (2 ^ 53) (54 - 53) = 2 ^ 53"
    by (simp add: round_to_even_def Let_def)
  show ?thesis
    unfolding float64_of_int_def Let_def n b r by simp
qed

lemma float64_of_int_exact_le: "0 \<le> x \<Longrightarrow> x \<le> 2 ^ 53 \<Longrightarrow> float64_of_int x = x"
  using float64_of_int_exact [of x] float64_of_int_2_53 by (cases "x = 2 ^ 53") simp_all


lemma bitlen_counter: "bitlen 9007199254740993 = 54"
  by (simp add: bitlen.simps)

lemma float64_of_int_counter: "float64_of_int 9007199254740993 = 9007199254740992"
  by (simp add: float64_of_int_def Let_def bitlen_counter round_to_even_def)

subsection \<open>Sizes\<close>

lemma integerLiteral_digits: "integerLiteral (digits n)"
  using hd_digits [of n] by (simp add: integerLiteral_def digits_nonempty digits_all)

lemma integerLiteral_minus_digits: "integerLiteral (CHR ''-'' # digits n)"
  by (simp add: integerLiteral_def digits_nonempty digits_all)

lemma wellformedGi_Sprintf_d: "wellformedGi (Sprintf_d i @ ''Gi'')"
  by (simp add: wellformedGi_def Sprintf_d_def integerLiteral_digits integerLiteral_minus_digits)

lemma wellformedGi_formatModelFileSize: "wellformedGi (formatModelFileSize t)"
  by (simp add: wellformedGi_def formatModelFileSize_def Sprintf_0f_def
        integerLiteral_digits integerLiteral_minus_digits)

lemma wellformedGi_calculateStorageSize: "wellformedGi (calculateStorageSize g)"
  by (simp add: calculateStorageSize_def Let_def wellformedGi_Sprintf_d)

lemma GiB: "(1024 * 1024 * 1024 :: real) = 2 ^ 30"
  by simp

lemma modelSizeGB_exact:
  assumes "0 \<le> sint B" "sint B \<le> 2 ^ 53"
  shows "modelSizeGB B = real_of_int (sint B) / 2 ^ 30"
  using assms by (simp only: modelSizeGB_def GiB float64_of_int_exact_le)

lemma formatModelFileSize_exact:
  assumes "0 \<le> sint B" "sint B \<le> 2 ^ 53"
  shows "formatModelFileSize B = digits (nat \<lceil>real_of_int (sint B) / 2 ^ 30\<rceil>) @ ''Gi''"
proof -
  have "0 \<le> real_of_int (sint B) / 2 ^ 30" using assms(1) by (simp del: of_int_sint)
  then have "Ceil (real_of_int (sint B) / 2 ^ 30) =
             IntFloat False (nat \<lceil>real_of_int (sint B) / 2 ^ 30\<rceil>)"
    by (simp add: Ceil_def)
  then show ?thesis
    by (simp add: formatModelFileSize_def modelSizeGB_exact [OF assms] Sprintf_0f_def
          del: of_int_sint)
qed

lemma gib_bound:
  assumes "0 \<le> (b::int)" "b \<le> 2 ^ 53"
  shows "\<lceil>real_of_int b / 2 ^ 30\<rceil> \<le> 2 ^ 23" "0 \<le> \<lceil>real_of_int b / 2 ^ 30\<rceil>"
proof -
  have "real_of_int b / 2 ^ 30 \<le> real_of_int (2 ^ 23)"
    using assms(2) by (simp add: field_simps)
  then show "\<lceil>real_of_int b / 2 ^ 30\<rceil> \<le> 2 ^ 23"
    by (simp only: ceiling_le_iff)
  show "0 \<le> \<lceil>real_of_int b / 2 ^ 30\<rceil>"
    using assms(1) by simp
qed

lemma calculateStorageSize_digits:
  assumes "ModelFileSize (Param g) = digits n @ ''Gi''" "n \<le> 2 ^ 23"
  shows "calculateStorageSize g = digits (n + 50) @ ''Gi''"
proof -
  have n: "\<bar>int n\<bar> < 2 ^ 53" "\<bar>int n + 50\<bar> < 2 ^ 53"
    using assms(2) by simp_all
  have pf: "ParseFloat (digits n) = Some (int n)"
    by (simp add: ParseFloat_def signed_decimal_digits float64_of_int_exact [OF n(1)])
  have range: "- (2 ^ 63) \<le> int n + 50" "int n + 50 < 2 ^ 63"
    using assms(2) by simp_all
  have conv: "float64_to_int (real_of_int (int n + 50)) = word_of_int (int n + 50)"
    using range by (simp only: float64_to_int_def truncZero_of_int) simp
  have "sint (float64_to_int (real_of_int (int n + 50))) = int n + 50"
    by (simp only: conv sint_in_range [OF range])
  then show ?thesis
    by (simp add: calculateStorageSize_def Let_def assms(1) pf SystemFileDiskSizeGiB_def
          float64_of_int_exact [OF n(2)] Sprintf_d_def nat_add_distrib)
qed

lemma Disk_FinalizeParams:
  "DiskStorageRequirement (Param (FinalizeParams g)) = calculateStorageSize g"
  by (simp add: FinalizeParams_def Let_def)

lemma digits_examples:
  "digits 9 = ''9''" "digits 59 = ''59''" "digits 8388608 = ''8388608''"
  "digits 8388609 = ''8388609''" "digits 8388658 = ''8388658''" "digits 8388659 = ''8388659''"
  by (simp_all add: digits.simps digitChar_def)

lemma gib_examples:
  "nat \<lceil>real_of_int 8589934593 / 2 ^ 30\<rceil> = 9"
  "nat \<lceil>real_of_int 9007199254740993 / 2 ^ 30\<rceil> = 8388609"
  by (simp_all add: ceiling_def)

lemma sint_examples:
  "sint (8589934593 :: 64 word) = 8589934593"
  "sint (9007199254740993 :: 64 word) = 9007199254740993"
  by simp_all

lemma modelSizeGB_counter: "modelSizeGB 9007199254740993 = 8388608"
  by (simp add: modelSizeGB_def float64_of_int_counter)

text \<open>
  C2, amended. For every total \<open>B\<close> of selected bytes with \<open>0 \<le> B \<le> 2^53\<close>,
  \<open>ModelFileSize\<close> is the decimal numeral of \<open>\<lceil>B / 2^30\<rceil>\<close> followed by \<open>Gi\<close>, and from
  that \<open>ModelFileSize\<close> \<open>FinalizeParams\<close> sets \<open>DiskStorageRequirement\<close> to the numeral of
  \<open>\<lceil>B / 2^30\<rceil> + 50\<close> followed by \<open>Gi\<close>. For \<open>B = 8 * 2^30 + 1\<close> these are \<open>9Gi\<close> and
  \<open>59Gi\<close>.
\<close>

theorem model_file_size_rounding:
  assumes "0 \<le> sint B" and "sint B \<le> 2 ^ 53"
  shows "formatModelFileSize B = digits (nat \<lceil>real_of_int (sint B) / 2 ^ 30\<rceil>) @ ''Gi'' \<and>
         (ModelFileSize (Param g) = formatModelFileSize B \<longrightarrow>
            DiskStorageRequirement (Param (FinalizeParams g)) =
              digits (nat \<lceil>real_of_int (sint B) / 2 ^ 30\<rceil> + 50) @ ''Gi'')"
proof -
  let ?n = "nat \<lceil>real_of_int (sint B) / 2 ^ 30\<rceil>"
  have fmt: "formatModelFileSize B = digits ?n @ ''Gi''"
    using assms by (rule formatModelFileSize_exact)
  have bound: "?n \<le> 2 ^ 23"
    using gib_bound [OF assms] by (simp only: nat_le_iff) simp
  have disk: "ModelFileSize (Param g) = formatModelFileSize B \<longrightarrow>
            DiskStorageRequirement (Param (FinalizeParams g)) = digits (?n + 50) @ ''Gi''"
  proof
    assume "ModelFileSize (Param g) = formatModelFileSize B"
    with fmt have "ModelFileSize (Param g) = digits ?n @ ''Gi''" by simp
    then have "calculateStorageSize g = digits (?n + 50) @ ''Gi''"
      using bound by (rule calculateStorageSize_digits)
    then show "DiskStorageRequirement (Param (FinalizeParams g)) = digits (?n + 50) @ ''Gi''"
      by (simp only: Disk_FinalizeParams)
  qed
  from fmt disk show ?thesis by (rule conjI)
qed

theorem model_file_size_rounding_witness:
  "0 \<le> sint (8589934593 :: 64 word) \<and> sint (8589934593 :: 64 word) = 8 * 2 ^ 30 + 1 \<and>
   formatModelFileSize 8589934593 = ''9Gi'' \<and>
   ModelFileSize (Param (gen_with_size ''9Gi'')) = ''9Gi'' \<and>
   DiskStorageRequirement (Param (FinalizeParams (gen_with_size ''9Gi''))) = ''59Gi''"
proof -
  have r: "0 \<le> sint (8589934593 :: 64 word)" "sint (8589934593 :: 64 word) \<le> 2 ^ 53"
    by simp_all
  have m: "ModelFileSize (Param (gen_with_size ''9Gi'')) = ''9Gi''"
    by (simp add: gen_with_size_def)
  note t = model_file_size_rounding [OF r, of "gen_with_size ''9Gi''"]
  have f: "formatModelFileSize 8589934593 = ''9Gi''"
    using t [THEN conjunct1] by (simp only: sint_examples gib_examples) (simp add: digits_examples)
  have d: "DiskStorageRequirement (Param (FinalizeParams (gen_with_size ''9Gi''))) = ''59Gi''"
    using t [THEN conjunct2, THEN mp] m f
    by (simp only: sint_examples gib_examples) (simp add: digits_examples)
  from r(1) f m d show ?thesis by simp
qed

text \<open>
  C2 as stated fails above \<open>2^53\<close>, where \<open>float64(totalBytes)\<close> rounds: for
  \<open>B = 2^53 + 1\<close> the conversion gives \<open>2^53\<close>, so \<open>ModelFileSize\<close> is \<open>8388608Gi\<close> and
  \<open>DiskStorageRequirement\<close> is \<open>8388658Gi\<close>, while \<open>\<lceil>B / 2^30\<rceil> = 8388609\<close>.
\<close>

theorem model_file_size_rounding_counterexample:
  "0 \<le> sint (9007199254740993 :: 64 word) \<and>
   formatModelFileSize 9007199254740993 = ''8388608Gi'' \<and>
   digits (nat \<lceil>real_of_int (sint (9007199254740993 :: 64 word)) / 2 ^ 30\<rceil>) @ ''Gi''
     = ''8388609Gi'' \<and>
   DiskStorageRequirement (Param (FinalizeParams (gen_with_size ''8388608Gi''))) = ''8388658Gi'' \<and>
   digits (nat \<lceil>real_of_int (sint (9007199254740993 :: 64 word)) / 2 ^ 30\<rceil> + 50) @ ''Gi''
     = ''8388659Gi''"
proof -
  have f: "formatModelFileSize 9007199254740993 = ''8388608Gi''"
    by (simp add: formatModelFileSize_def modelSizeGB_counter Ceil_def Sprintf_0f_def
          digits_examples)
  have m: "ModelFileSize (Param (gen_with_size (digits 8388608 @ ''Gi''))) = digits 8388608 @ ''Gi''"
    by (simp add: gen_with_size_def)
  have "calculateStorageSize (gen_with_size (digits 8388608 @ ''Gi'')) = digits (8388608 + 50) @ ''Gi''"
    using m by (rule calculateStorageSize_digits) simp
  then have d: "DiskStorageRequirement (Param (FinalizeParams (gen_with_size ''8388608Gi''))) =
                ''8388658Gi''"
    by (simp add: Disk_FinalizeParams digits_examples)
  show ?thesis
    by (simp only: f d sint_examples gib_examples) (simp add: digits_examples)
qed

subsection \<open>Runs of the generator\<close>

lemma word_of_sint: "word_of_int (sint w) = (w :: 64 word)"
  by simp

lemma elements_exact: "kv_elementsPerToken c = word_of_int (kv_exact_elements c)"
proof -
  have a: "x + y = word_of_int (sint x + sint y)" for x y :: "64 word"
    by (simp add: wi_homs [symmetric] del: of_int_add)
  have m: "2 * x * y = word_of_int (2 * sint x * sint y)" for x y :: "64 word"
    by (simp add: wi_homs [symmetric] del: of_int_mult)
  show ?thesis
    unfolding kv_elementsPerToken_def kv_classify_def kv_exact_elements_def
    using a m by (simp del: of_int_add of_int_mult)
qed

lemma tokenSize_exact:
  "fst (calculateKVCacheTokenSize c) =
     word_of_int (kv_exact_elements c * sint (kv_hiddenLayers c) * 2)"
proof -
  have "kv_elementsPerToken c * kv_hiddenLayers c * 2 =
        word_of_int (kv_exact_elements c) * word_of_int (sint (kv_hiddenLayers c)) * word_of_int 2"
    by (simp only: elements_exact word_of_sint) simp
  also have "\<dots> = word_of_int (kv_exact_elements c * sint (kv_hiddenLayers c) * 2)"
    by (simp only: wi_homs)
  finally show ?thesis
    by (simp add: calculateKVCacheTokenSize_def Let_def)
qed

lemma kv_exact_elements_nonneg:
  assumes "kv_kvLoraRank c \<noteq> - 1 \<longrightarrow> 0 \<le> sint (kv_kvLoraRank c) + sint (kv_qkRopeHeadDim c)"
  shows "0 \<le> kv_exact_elements c"
  using assms by (simp add: kv_exact_elements_def)

lemma tokenSize_nonneg:
  assumes "0 \<le> sint (kv_hiddenLayers c)"
    and "kv_kvLoraRank c \<noteq> - 1 \<longrightarrow> 0 \<le> sint (kv_kvLoraRank c) + sint (kv_qkRopeHeadDim c)"
    and "kv_exact_elements c * sint (kv_hiddenLayers c) * 2 < 2 ^ 63"
  shows "0 \<le> sint (fst (calculateKVCacheTokenSize c))"
proof -
  let ?X = "kv_exact_elements c * sint (kv_hiddenLayers c) * 2"
  have nonneg: "0 \<le> ?X"
    using kv_exact_elements_nonneg [OF assms(2)] assms(1) by simp
  then have "- (2 ^ 63) \<le> ?X" by simp
  from sint_in_range [OF this assms(3)] nonneg show ?thesis
    by (simp only: tokenSize_exact)
qed

lemma unknown_result:
  assumes "kv_kvLoraRank c = - 1"
    and "\<not> (0 < sint (kv_attentionHeads c) \<and> 0 < sint (kv_kvHeads c) \<and> 0 < sint (kv_headDim c))"
  shows "calculateKVCacheTokenSize c = (0, ''Unknown'')"
  using assms by (auto simp add: kv_result)

lemma fetchURL_Inr:
  assumes "fetchURL e url (g, w) = (Inr b, g', w')"
  shows "g' = g"
  using assms
  by (auto simp add: fetchURL_def Let_def split: option.splits response.splits if_splits)

lemma fetchURL_config_irrelevant:
  "fetchURL (e\<lparr>Unmarshal_config := u\<rparr>) url gw = fetchURL e url gw"
proof -
  have a: "getAuthHeader (e\<lparr>Unmarshal_config := u\<rparr>) g = getAuthHeader e g" for g
    by (simp add: getAuthHeader_def)
  show ?thesis
    by (simp add: fetchURL_def a Let_def split: option.splits)
qed

lemma FetchModelMetadata_None_iff:
  "FetchModelMetadata e (g, w) = (None, g', w') \<longleftrightarrow>
     (\<exists>body w1 files g2 configFile selectedFiles configBody cfg.
        fetchURL e (listURL g) (g, w) = (Inr body, g, w1) \<and>
        Unmarshal_files e body = Inr files \<and>
        detectFormat g files = Inr (g2, configFile, selectedFiles) \<and>
        fetchURL e (configURL (sized g2 selectedFiles) configFile) (sized g2 selectedFiles, w1)
          = (Inr configBody, sized g2 selectedFiles, w') \<and>
        Unmarshal_config e configBody = Inr cfg \<and>
        g' = (sized g2 selectedFiles)\<lparr>ModelConfig := cfg\<rparr>)"
  (is "?L \<longleftrightarrow> ?R")
proof
  assume L: ?L
  obtain r1 g1 w1 where f1: "fetchURL e (listURL g) (g, w) = (r1, g1, w1)"
    by (cases "fetchURL e (listURL g) (g, w)")
  from L f1 obtain body where r1: "r1 = Inr body"
    by (cases r1) (auto simp add: FetchModelMetadata_def Let_def listURL_def)
  from f1 r1 have g1: "g1 = g" by (auto dest: fetchURL_Inr)
  from L f1 r1 obtain files where u: "Unmarshal_files e body = Inr files"
    by (cases "Unmarshal_files e body") (auto simp add: FetchModelMetadata_def Let_def listURL_def)
  from L f1 r1 u obtain g2 configFile selectedFiles
    where d: "detectFormat g files = Inr (g2, configFile, selectedFiles)"
    by (cases "detectFormat g files")
       (auto simp add: FetchModelMetadata_def Let_def listURL_def g1)
  let ?g3 = "sized g2 selectedFiles"
  obtain r2 g4 w2
    where f2: "fetchURL e (configURL ?g3 configFile) (?g3, w1) = (r2, g4, w2)"
    by (cases "fetchURL e (configURL ?g3 configFile) (?g3, w1)")
  from L f1 r1 u d f2 obtain configBody where r2: "r2 = Inr configBody"
    by (cases r2)
       (auto simp add: FetchModelMetadata_def Let_def listURL_def g1 sized_def configURL_def)
  from f2 r2 have g4: "g4 = ?g3" by (auto dest: fetchURL_Inr)
  from L f1 r1 u d f2 r2 obtain cfg
    where c: "Unmarshal_config e configBody = Inr cfg"
    by (cases "Unmarshal_config e configBody")
       (auto simp add: FetchModelMetadata_def Let_def listURL_def g1 sized_def configURL_def)
  from L f1 r1 u d f2 r2 c have "g' = ?g3\<lparr>ModelConfig := cfg\<rparr>" "w' = w2"
    by (auto simp add: FetchModelMetadata_def Let_def listURL_def g1 g4 sized_def configURL_def)
  with f1 r1 g1 u d f2 r2 g4 c show ?R by blast
next
  assume ?R
  then show ?L
    by (auto simp add: FetchModelMetadata_def Let_def listURL_def sized_def configURL_def)
qed

lemma ParseModelMetadata_keeps:
  "ModelFileSize (Param (ParseModelMetadata e g)) = ModelFileSize (Param g)"
  "ModelConfig (ParseModelMetadata e g) = ModelConfig g"
  by (simp_all add: ParseModelMetadata_def Let_def del: getInt.simps)

lemma FinalizeParams_fields:
  "ModelFileSize (Param (FinalizeParams g)) = ModelFileSize (Param g)"
  "ModelConfig (FinalizeParams g) = ModelConfig g"
  "BytesPerToken (Param (FinalizeParams g)) = fst (calculateKVCacheTokenSize (ModelConfig g))"
  "AttnType (Param (FinalizeParams g)) = snd (calculateKVCacheTokenSize (ModelConfig g))"
  by (simp_all add: FinalizeParams_def Let_def)

lemma Generate_Inr_iff:
  "Generate e gw = (Inr p, gf, ws) \<longleftrightarrow>
     (\<exists>g1. FetchModelMetadata e gw = (None, g1, ws) \<and>
           gf = FinalizeParams (ParseModelMetadata e g1) \<and> p = Param gf)"
  by (cases "FetchModelMetadata e gw")
     (auto simp add: Generate_def Let_def split: option.splits)

lemma GeneratePreset_Inr:
  assumes "fst (GeneratePreset e modelRepo token) = Inr p"
  obtains g1 ws where
    "FetchModelMetadata e (NewGenerator modelRepo token, []) = (None, g1, ws)"
    "p = Param (FinalizeParams (ParseModelMetadata e g1))"
    "accepted_config e modelRepo token = ModelConfig g1"
proof -
  from assms have ne: "modelRepo \<noteq> []"
    by (auto simp add: GeneratePreset_def)
  obtain r gf ws where G: "Generate e (NewGenerator modelRepo token, []) = (r, gf, ws)"
    by (cases "Generate e (NewGenerator modelRepo token, [])")
  with assms ne have "r = Inr p"
    by (simp add: GeneratePreset_def Let_def)
  with G have "Generate e (NewGenerator modelRepo token, []) = (Inr p, gf, ws)" by simp
  then obtain g1 where
    F: "FetchModelMetadata e (NewGenerator modelRepo token, []) = (None, g1, ws)"
    and gf: "gf = FinalizeParams (ParseModelMetadata e g1)" and p: "p = Param gf"
    unfolding Generate_Inr_iff by blast
  have "accepted_config e modelRepo token = ModelConfig g1"
    by (simp add: accepted_config_def G gf FinalizeParams_fields ParseModelMetadata_keeps)
  with F gf p show thesis by (intro that) simp_all
qed

lemma FetchModelMetadata_any_config:
  assumes "FetchModelMetadata e (g, w) = (None, g', w')"
  shows "\<exists>g''. FetchModelMetadata (e\<lparr>Unmarshal_config := \<lambda>body. Inr cfg'\<rparr>) (g, w) = (None, g'', w')"
proof -
  from assms obtain body w1 files g2 configFile selectedFiles configBody where
    "fetchURL e (listURL g) (g, w) = (Inr body, g, w1)"
    "Unmarshal_files e body = Inr files"
    "detectFormat g files = Inr (g2, configFile, selectedFiles)"
    "fetchURL e (configURL (sized g2 selectedFiles) configFile) (sized g2 selectedFiles, w1)
          = (Inr configBody, sized g2 selectedFiles, w')"
    unfolding FetchModelMetadata_None_iff by blast
  then have "FetchModelMetadata (e\<lparr>Unmarshal_config := \<lambda>body. Inr cfg'\<rparr>) (g, w) =
               (None, (sized g2 selectedFiles)\<lparr>ModelConfig := cfg'\<rparr>, w')"
    unfolding FetchModelMetadata_None_iff
    by (simp add: fetchURL_config_irrelevant)
  then show ?thesis ..
qed

lemma ModelFileSize_fetched:
  assumes "FetchModelMetadata e (g, w) = (None, g', w')"
  shows "\<exists>t. ModelFileSize (Param g') = formatModelFileSize t"
proof -
  from assms obtain g2 selectedFiles cfg where
    "g' = (sized g2 selectedFiles)\<lparr>ModelConfig := cfg\<rparr>"
    unfolding FetchModelMetadata_None_iff by blast
  then have "ModelFileSize (Param g') = formatModelFileSize (totalBytes selectedFiles)"
    by (simp add: sized_def)
  then show ?thesis ..
qed

text \<open>
  C9, amended. For every successful run of \<open>GeneratePreset\<close>, with \<open>cfg\<close> the
  configuration it decoded: \<open>ModelFileSize\<close> and \<open>DiskStorageRequirement\<close> are integer
  literals followed by \<open>Gi\<close>; \<open>BytesPerToken \<ge> 0\<close> provided that \<open>hiddenLayers \<ge> 0\<close>, that
  \<open>kvLoraRank + qkRopeHeadDim \<ge> 0\<close> when \<open>kv_lora_rank\<close> is read, and that
  \<open>elementsPerToken * hiddenLayers * 2\<close> computed in the integers is below \<open>2^63\<close>;
  \<open>AttnType\<close> is \<open>Unknown\<close> and \<open>BytesPerToken\<close> is 0 when no \<open>kv_lora_rank\<close> is read and
  \<open>attentionHeads\<close>, \<open>kvHeads\<close>, \<open>headDim\<close> are not all positive; and the run succeeds
  as well with any other configuration \<open>cfg'\<close> in place of the decoded one.
\<close>

theorem generated_preset_invariant:
  assumes "fst (GeneratePreset e modelRepo token) = Inr p"
  defines "cfg \<equiv> accepted_config e modelRepo token"
  shows
    "wellformedGi (ModelFileSize p) \<and>
     wellformedGi (DiskStorageRequirement p) \<and>
     (0 \<le> sint (kv_hiddenLayers cfg) \<and>
      (kv_kvLoraRank cfg \<noteq> - 1 \<longrightarrow>
         0 \<le> sint (kv_kvLoraRank cfg) + sint (kv_qkRopeHeadDim cfg)) \<and>
      kv_exact_elements cfg * sint (kv_hiddenLayers cfg) * 2 < 2 ^ 63 \<longrightarrow>
        0 \<le> sint (BytesPerToken p)) \<and>
     (kv_kvLoraRank cfg = - 1 \<and>
      \<not> (0 < sint (kv_attentionHeads cfg) \<and> 0 < sint (kv_kvHeads cfg)
         \<and> 0 < sint (kv_headDim cfg)) \<longrightarrow>
        AttnType p = ''Unknown'' \<and> BytesPerToken p = 0) \<and>
     (\<exists>p'. fst (GeneratePreset (e\<lparr>Unmarshal_config := \<lambda>body. Inr cfg'\<rparr>) modelRepo token)
             = Inr p')"
proof -
  from assms(1) obtain g1 ws where
    F: "FetchModelMetadata e (NewGenerator modelRepo token, []) = (None, g1, ws)"
    and p: "p = Param (FinalizeParams (ParseModelMetadata e g1))"
    and c: "accepted_config e modelRepo token = ModelConfig g1"
    by (rule GeneratePreset_Inr)
  from assms(1) have ne: "modelRepo \<noteq> []"
    by (auto simp add: GeneratePreset_def)
  from ModelFileSize_fetched [OF F] obtain t
    where "ModelFileSize (Param g1) = formatModelFileSize t" ..
  then have size: "wellformedGi (ModelFileSize p)"
    by (simp add: p FinalizeParams_fields ParseModelMetadata_keeps
          wellformedGi_formatModelFileSize)
  have disk: "wellformedGi (DiskStorageRequirement p)"
    by (simp add: p Disk_FinalizeParams wellformedGi_calculateStorageSize)
  have bpt: "BytesPerToken p = fst (calculateKVCacheTokenSize cfg)"
    and attn: "AttnType p = snd (calculateKVCacheTokenSize cfg)"
    by (simp_all add: p cfg_def c FinalizeParams_fields ParseModelMetadata_keeps)
  have nonneg: "0 \<le> sint (kv_hiddenLayers cfg) \<and>
      (kv_kvLoraRank cfg \<noteq> - 1 \<longrightarrow>
         0 \<le> sint (kv_kvLoraRank cfg) + sint (kv_qkRopeHeadDim cfg)) \<and>
      kv_exact_elements cfg * sint (kv_hiddenLayers cfg) * 2 < 2 ^ 63 \<longrightarrow>
        0 \<le> sint (BytesPerToken p)"
    unfolding bpt using tokenSize_nonneg [of cfg] by blast
  have unknown: "kv_kvLoraRank cfg = - 1 \<and>
      \<not> (0 < sint (kv_attentionHeads cfg) \<and> 0 < sint (kv_kvHeads cfg)
         \<and> 0 < sint (kv_headDim cfg)) \<longrightarrow>
        AttnType p = ''Unknown'' \<and> BytesPerToken p = 0"
    unfolding bpt attn using unknown_result [of cfg] by auto
  from FetchModelMetadata_any_config [OF F, of cfg'] obtain g'' where
    "FetchModelMetadata (e\<lparr>Unmarshal_config := \<lambda>body. Inr cfg'\<rparr>)
       (NewGenerator modelRepo token, []) = (None, g'', ws)" ..
  then have any: "\<exists>p'. fst (GeneratePreset (e\<lparr>Unmarshal_config := \<lambda>body. Inr cfg'\<rparr>)
                            modelRepo token) = Inr p'"
    using ne by (simp add: GeneratePreset_def Generate_def Let_def)
  from size disk nonneg unknown any show ?thesis by blast
qed

subsection \<open>Format detection\<close>

lemma detectFormat_safetensors:
  assumes "list_ex (\<lambda>f. HasSuffix (Path f) ''.safetensors'') files"
    and "\<not> list_ex (\<lambda>f. mistralRegex (Path f)) files"
  shows "detectFormat g files =
           Inr (g, ''config.json'', filter (\<lambda>f. HasSuffix (Path f) ''.safetensors'') files)"
proof -
  let ?sel = "filter (\<lambda>f. safetensorRegex (Path f) \<or> binRegex (Path f)) files"
  from assms(2) have no_mistral: "filter (\<lambda>f. mistralRegex (Path f)) files = []"
    by (simp add: list_ex_iff filter_empty_conv)
  from assms(1) obtain f where f: "f \<in> set files" "HasSuffix (Path f) ''.safetensors''"
    by (auto simp add: list_ex_iff)
  then have fsel: "f \<in> set ?sel"
    by (simp add: HasSuffix_safetensorRegex)
  then have nonempty: "?sel \<noteq> []"
    by (metis empty_iff empty_set)
  from fsel f(2) have has: "list_ex (\<lambda>f. HasSuffix (Path f) ''.safetensors'') ?sel"
    unfolding list_ex_iff by blast
  have "detectFormat g files = Inr (g, ''config.json'', onlySafetensors ?sel)"
    using nonempty has by (simp add: detectFormat_def Let_def no_mistral)
  then show ?thesis by (simp only: filter_detect)
qed

lemma detectFormat_mistral:
  assumes "list_ex (\<lambda>f. mistralRegex (Path f)) files"
  shows "detectFormat g files =
           Inr (g\<lparr>LoadFormat := ''mistral'', ConfigFormat := ''mistral'',
                   TokenizerMode := ''mistral''\<rparr>,
                ''params.json'', filter (\<lambda>f. mistralRegex (Path f)) files)"
proof -
  from assms have "filter (\<lambda>f. mistralRegex (Path f)) files \<noteq> []"
    by (simp add: list_ex_iff filter_empty_conv)
  then show ?thesis by (simp add: detectFormat_def Let_def)
qed

lemma detectFormat_Inr:
  assumes "detectFormat g files = Inr (g2, configFile, selectedFiles)"
  shows "Token g2 = Token g \<and> ModelRepo g2 = ModelRepo g \<and> Param g2 = Param g \<and>
         (configFile = ''config.json'' \<or> configFile = ''params.json'')"
  using assms by (auto simp add: detectFormat_def Let_def split: if_splits)

lemma HasSuffix_last:
  assumes "HasSuffix s suffix" "suffix \<noteq> []"
  shows "last s = last suffix"
proof -
  from assms(1) obtain a where "s = a @ suffix" unfolding HasSuffix_iff by blast
  with assms(2) show ?thesis by simp
qed

lemma configURL_not_listing:
  assumes "configFile = ''config.json'' \<or> configFile = ''params.json''"
  shows "\<not> HasSuffix (configURL g configFile) ''/tree/main?recursive=true''"
proof
  assume "HasSuffix (configURL g configFile) ''/tree/main?recursive=true''"
  then have "last (configURL g configFile) = last ''/tree/main?recursive=true''"
    by (rule HasSuffix_last) simp
  with assms show False by (auto simp add: configURL_def)
qed

lemma listURL_listing: "HasSuffix (listURL g) ''/tree/main?recursive=true''"
  using HasSuffix_append [of "HuggingFaceWebsite @ ''/api/models/'' @ ModelRepo g"
                             "''/tree/main?recursive=true''"]
  by (simp add: listURL_def)

text \<open>A run against \<open>example_env\<close> with status 200 twice and no credential.\<close>

lemma example_fetch:
  assumes d: "detectFormat g files = Inr (g2, configFile, selectedFiles)"
    and t: "Token g = []"
  shows "FetchModelMetadata
           (example_env [] (Response 200 (Inr b1)) files (Response 200 (Inr b2)) cfg) (g, w) =
         (None, (sized g2 selectedFiles)\<lparr>ModelConfig := cfg\<rparr>,
          w @ [(listURL g, []), (configURL (sized g2 selectedFiles) configFile, [])])"
proof -
  let ?e = "example_env [] (Response 200 (Inr b1)) files (Response 200 (Inr b2)) cfg"
  let ?g3 = "sized g2 selectedFiles"
  from detectFormat_Inr [OF d] t have t3: "Token ?g3 = []"
    and cf: "configFile = ''config.json'' \<or> configFile = ''params.json''"
    by (simp_all add: sized_def)
  have auth: "getAuthHeader ?e g = []" "getAuthHeader ?e ?g3 = []"
    using t t3 by (simp_all add: getAuthHeader_def example_env_def)
  have new: "NewRequest ?e url = None" for url
    by (simp add: example_env_def)
  have do1: "Do ?e (listURL g) [] = Response 200 (Inr b1)"
    using listURL_listing [of g] by (simp add: example_env_def)
  have do2: "Do ?e (configURL ?g3 configFile) [] = Response 200 (Inr b2)"
    using configURL_not_listing [OF cf, of ?g3] by (simp add: example_env_def)
  have f1: "fetchURL ?e (listURL g) (g, w) = (Inr b1, g, w @ [(listURL g, [])])"
    by (simp add: fetchURL_def Let_def new auth do1)
  have f2: "fetchURL ?e (configURL ?g3 configFile) (?g3, w @ [(listURL g, [])]) =
              (Inr b2, ?g3, w @ [(listURL g, []), (configURL ?g3 configFile, [])])"
    by (simp add: fetchURL_def Let_def new auth do2)
  have u: "Unmarshal_files ?e b1 = Inr files" "Unmarshal_config ?e b2 = Inr cfg"
    by (simp_all add: example_env_def)
  show ?thesis
    unfolding FetchModelMetadata_None_iff
    using f1 f2 u d by blast
qed

lemma example_run:
  assumes d: "detectFormat (NewGenerator modelRepo []) files = Inr (g2, configFile, selectedFiles)"
    and ne: "modelRepo \<noteq> []"
  shows "fst (GeneratePreset
                (example_env [] (Response 200 (Inr b1)) files (Response 200 (Inr b2)) cfg)
                modelRepo []) =
         Inr (Param (FinalizeParams
                (ParseModelMetadata
                   (example_env [] (Response 200 (Inr b1)) files (Response 200 (Inr b2)) cfg)
                   ((sized g2 selectedFiles)\<lparr>ModelConfig := cfg\<rparr>))))"
proof -
  have "Token (NewGenerator modelRepo []) = []"
    by (simp add: NewGenerator_def Let_def)
  from example_fetch [OF d this] ne show ?thesis
    by (simp add: GeneratePreset_def Generate_def Let_def)
qed

lemma files_mixed_eval:
  "list_ex (\<lambda>f. HasSuffix (Path f) ''.safetensors'') files_mixed"
  "\<not> list_ex (\<lambda>f. mistralRegex (Path f)) files_mixed"
  "filter (\<lambda>f. HasSuffix (Path f) ''.safetensors'') files_mixed =
     [\<lparr>Path = ''model.safetensors'', Size = 70, Type = ''file''\<rparr>]"
  by (simp_all add: files_mixed_def paths_eval HasSuffix_def)


lemma files_mistral_eval:
  "list_ex (\<lambda>f. mistralRegex (Path f)) files_mistral"
  "list_ex (\<lambda>f. HasSuffix (Path f) ''.safetensors'') files_mistral"
  "list_ex (\<lambda>f. HasSuffix (Path f) ''.bin'') files_mistral"
  "filter (\<lambda>f. mistralRegex (Path f)) files_mistral =
     [\<lparr>Path = ''consolidated.safetensors'', Size = 40, Type = ''file''\<rparr>]"
  by (simp_all add: files_mistral_def paths_eval HasSuffix_def)




lemma lastPart_suffix: "\<exists>a. path = a @ lastPart path"
proof -
  have "rev path = takeWhile (\<lambda>c. c \<noteq> CHR ''/'') (rev path) @ dropWhile (\<lambda>c. c \<noteq> CHR ''/'') (rev path)"
    by simp
  then have "path = rev (dropWhile (\<lambda>c. c \<noteq> CHR ''/'') (rev path)) @ lastPart path"
    unfolding lastPart_def by (metis rev_append rev_rev_ident)
  then show ?thesis ..
qed

lemma dotStarThen_no_newline:
  "CHR 0x0A \<notin> set m \<Longrightarrow> dotStarThen lit (m @ lit)"
proof (induction m)
  case Nil
  show ?case by (simp add: HasPrefix_dotStarThen HasPrefix_def)
next
  case (Cons c m)
  then show ?case by auto
qed

lemma vendorGlob_mistralRegex:
  assumes g: "vendorGlob path" and n: "CHR 0x0A \<notin> set path"
  shows "mistralRegex path"
proof -
  let ?name = "lastPart path"
  from g have p: "HasPrefix ?name ''consolidated''" and s: "HasSuffix ?name ''.safetensors''"
    and l: "24 \<le> length ?name"
    by (simp_all add: vendorGlob_def Let_def)
  from s obtain b where b: "?name = b @ ''.safetensors''"
    unfolding HasSuffix_iff by blast
  with l have lb: "12 \<le> length b" by simp
  obtain a where a: "path = a @ ?name" using lastPart_suffix by blast
  have "set ?name \<subseteq> set path" by (subst (2) a) simp
  moreover have "set (drop 12 b) \<subseteq> set ?name"
    using set_drop_subset [of 12 b] by (subst b) auto
  ultimately have nb: "CHR 0x0A \<notin> set (drop 12 b)"
    using n by blast
  have len: "length ''consolidated'' = 12" by simp
  have dr: "drop 12 ?name = drop 12 b @ ''.safetensors''"
    using lb by (subst b) simp
  from dotStarThen_no_newline [OF nb, of "''.safetensors''"]
  have "dotStarThen ''.safetensors'' (drop 12 ?name)" by (simp only: dr)
  then have "dotStarThen ''.safetensors'' (drop (length ''consolidated'') ?name)"
    by (simp only: len)
  with p have "HasPrefix ?name ''consolidated''
      \<and> dotStarThen ''.safetensors'' (drop (length ''consolidated'') ?name)" by simp
  then have "somewhere (\<lambda>t. HasPrefix t ''consolidated''
                  \<and> dotStarThen ''.safetensors'' (drop (length ''consolidated'') t)) (a @ ?name)"
    by (rule somewhere_append)
  then show ?thesis
    unfolding mistralRegex_def by (subst a)
qed

lemma files_consolidated_index_eval:
  "list_ex (\<lambda>f. mistralRegex (Path f)) files_consolidated_index"
  "filter (\<lambda>f. mistralRegex (Path f)) files_consolidated_index = files_consolidated_index"
  "list_ex (\<lambda>f. vendorGlob (Path f)) files_consolidated_index"
  "filter (\<lambda>f. vendorGlob (Path f)) files_consolidated_index =
     [\<lparr>Path = ''consolidated.safetensors'', Size = 40, Type = ''file''\<rparr>]"
  "vendorGlob ''consolidated.safetensors''"
  "\<not> vendorGlob ''consolidated.safetensors.index.json''"
  "mistralRegex ''consolidated.safetensors.index.json''"
  "totalBytes files_consolidated_index = 50"
  by (simp_all add: files_consolidated_index_def regex_eval vendorGlob_def lastPart_def
        totalBytes_def Let_def)

text \<open>
  C4, amended. For every listing with at least one file whose path matches
  \<open>mistralRegex\<close> (the unanchored \<open>consolidated.*\.safetensors\<close>), whatever other
  \<open>.safetensors\<close> or \<open>.bin\<close> files it has, the format detection sets \<open>LoadFormat\<close>,
  \<open>ConfigFormat\<close> and \<open>TokenizerMode\<close> to \<open>mistral\<close>, chooses \<open>params.json\<close>, and
  selects exactly the files whose path matches \<open>mistralRegex\<close>. Every file named
  \<open>consolidated*.safetensors\<close> (with no newline in its path) is among them.
\<close>

theorem mistral_files_take_priority:
  assumes "list_ex (\<lambda>f. mistralRegex (Path f)) files"
  shows "detectFormat g files =
           Inr (g\<lparr>LoadFormat := ''mistral'', ConfigFormat := ''mistral'',
                   TokenizerMode := ''mistral''\<rparr>,
                ''params.json'', filter (\<lambda>f. mistralRegex (Path f)) files) \<and>
         list_all (\<lambda>f. mistralRegex (Path f))
           (filter (\<lambda>f. vendorGlob (Path f) \<and> CHR 0x0A \<notin> set (Path f)) files)"
proof -
  have "list_all (\<lambda>f. mistralRegex (Path f))
           (filter (\<lambda>f. vendorGlob (Path f) \<and> CHR 0x0A \<notin> set (Path f)) files)"
    by (simp add: list_all_iff vendorGlob_mistralRegex)
  with detectFormat_mistral [OF assms, of g] show ?thesis by (rule conjI)
qed

theorem mistral_files_take_priority_witness:
  "list_ex (\<lambda>f. mistralRegex (Path f)) files_mistral \<and>
   list_ex (\<lambda>f. HasSuffix (Path f) ''.safetensors'') files_mistral \<and>
   list_ex (\<lambda>f. HasSuffix (Path f) ''.bin'') files_mistral \<and>
   detectFormat (NewGenerator ''org/m'' []) files_mistral =
     Inr ((NewGenerator ''org/m'' [])
            \<lparr>LoadFormat := ''mistral'', ConfigFormat := ''mistral'', TokenizerMode := ''mistral''\<rparr>,
          ''params.json'',
          [\<lparr>Path = ''consolidated.safetensors'', Size = 40, Type = ''file''\<rparr>])"
  using mistral_files_take_priority [OF files_mistral_eval(1), of "NewGenerator ''org/m'' []", THEN conjunct1]
    files_mistral_eval
  by simp

text \<open>
  C4 as stated fails: \<open>mistralRegex\<close> is not anchored, so
  \<open>consolidated.safetensors.index.json\<close> matches it although its name is not of the
  pattern \<open>consolidated*.safetensors\<close>. For a listing of \<open>consolidated.safetensors\<close>
  and that index file both are selected and 50 bytes are summed: the selected files
  are not exactly the vendor-consolidated ones.
\<close>

theorem mistral_files_take_priority_counterexample:
  "list_ex (\<lambda>f. vendorGlob (Path f)) files_consolidated_index \<and>
   detectFormat (NewGenerator ''org/m'' []) files_consolidated_index =
     Inr ((NewGenerator ''org/m'' [])
            \<lparr>LoadFormat := ''mistral'', ConfigFormat := ''mistral'', TokenizerMode := ''mistral''\<rparr>,
          ''params.json'', files_consolidated_index) \<and>
   filter (\<lambda>f. vendorGlob (Path f)) files_consolidated_index =
     [\<lparr>Path = ''consolidated.safetensors'', Size = 40, Type = ''file''\<rparr>] \<and>
   files_consolidated_index \<noteq> filter (\<lambda>f. vendorGlob (Path f)) files_consolidated_index \<and>
   \<not> vendorGlob ''consolidated.safetensors.index.json'' \<and>
   totalBytes files_consolidated_index = 50"
proof -
  have d: "detectFormat (NewGenerator ''org/m'' []) files_consolidated_index =
     Inr ((NewGenerator ''org/m'' [])
            \<lparr>LoadFormat := ''mistral'', ConfigFormat := ''mistral'', TokenizerMode := ''mistral''\<rparr>,
          ''params.json'', files_consolidated_index)"
    using detectFormat_mistral [OF files_consolidated_index_eval(1), of "NewGenerator ''org/m'' []"]
    by (simp only: files_consolidated_index_eval(2))
  have ne: "files_consolidated_index \<noteq>
            filter (\<lambda>f. vendorGlob (Path f)) files_consolidated_index"
    by (simp only: files_consolidated_index_eval(4)) (simp add: files_consolidated_index_def)
  from files_consolidated_index_eval(3,4,6,8) d ne show ?thesis by simp
qed

subsection \<open>Example runs\<close>

lemma detect_mixed:
  "detectFormat (NewGenerator ''org/m'' []) files_mixed =
     Inr (NewGenerator ''org/m'' [], ''config.json'',
          [\<lparr>Path = ''model.safetensors'', Size = 70, Type = ''file''\<rparr>])"
  using detectFormat_safetensors [OF files_mixed_eval(1,2), of "NewGenerator ''org/m'' []"]
  by (simp only: files_mixed_eval(3))

lemma mixed_run:
  "fst (GeneratePreset
          (example_env [] (Response 200 (Inr ''[]'')) files_mixed (Response 200 (Inr ''{}'')) cfg)
          ''org/m'' []) =
   Inr (Param (FinalizeParams
          (ParseModelMetadata
             (example_env [] (Response 200 (Inr ''[]'')) files_mixed (Response 200 (Inr ''{}'')) cfg)
             ((sized (NewGenerator ''org/m'' [])
                 [\<lparr>Path = ''model.safetensors'', Size = 70, Type = ''file''\<rparr>])
              \<lparr>ModelConfig := cfg\<rparr>))))"
  by (rule example_run [OF detect_mixed]) simp

lemma mixed_run_fields:
  assumes "fst (GeneratePreset
          (example_env [] (Response 200 (Inr ''[]'')) files_mixed (Response 200 (Inr ''{}'')) cfg)
          ''org/m'' []) = Inr p"
  shows "BytesPerToken p = fst (calculateKVCacheTokenSize cfg)"
    and "AttnType p = snd (calculateKVCacheTokenSize cfg)"
    and "ModelFileSize p = formatModelFileSize 70"
    and "accepted_config
           (example_env [] (Response 200 (Inr ''[]'')) files_mixed (Response 200 (Inr ''{}'')) cfg)
           ''org/m'' [] = cfg"
proof -
  let ?e = "example_env [] (Response 200 (Inr ''[]'')) files_mixed (Response 200 (Inr ''{}'')) cfg"
  let ?g1 = "(sized (NewGenerator ''org/m'' [])
                 [\<lparr>Path = ''model.safetensors'', Size = 70, Type = ''file''\<rparr>])
              \<lparr>ModelConfig := cfg\<rparr>"
  from assms mixed_run [of cfg] have p: "p = Param (FinalizeParams (ParseModelMetadata ?e ?g1))"
    by simp
  show "BytesPerToken p = fst (calculateKVCacheTokenSize cfg)"
    and "AttnType p = snd (calculateKVCacheTokenSize cfg)"
    by (simp_all add: p FinalizeParams_fields ParseModelMetadata_keeps)
  show "ModelFileSize p = formatModelFileSize 70"
    by (simp add: p FinalizeParams_fields ParseModelMetadata_keeps sized_def totalBytes_def)
  have t: "Token (NewGenerator ''org/m'' []) = []"
    by (simp add: NewGenerator_def Let_def)
  show "accepted_config ?e ''org/m'' [] = cfg"
    unfolding accepted_config_def Generate_def
    by (simp add: example_fetch [OF detect_mixed t] Let_def FinalizeParams_fields
          ParseModelMetadata_keeps)
qed

lemma preset_runs:
  "fst (GeneratePreset env_ok ''org/m'' []) = Inr preset_ok"
  "fst (GeneratePreset env_empty_config ''org/m'' []) = Inr preset_empty_config"
  "fst (GeneratePreset env_negative_layers ''org/m'' []) = Inr preset_negative_layers"
  unfolding preset_ok_def preset_empty_config_def preset_negative_layers_def
    env_ok_def env_empty_config_def env_negative_layers_def
  by (simp_all only: mixed_run sum.sel)

lemma size_70: "formatModelFileSize 70 = ''1Gi''"
  by (simp add: formatModelFileSize_def modelSizeGB_def float64_of_int_def bitlen.simps
        Ceil_def ceiling_def Sprintf_0f_def digits.simps digitChar_def)

lemma kv_examples:
  "calculateKVCacheTokenSize cfg_gqa = (131072, ''GQA'')"
  "calculateKVCacheTokenSize Map.empty = (0, ''Unknown'')"
  "calculateKVCacheTokenSize cfg_negative_layers = (- 1024, ''MLA'')"
  by (simp_all add: cfg_gqa_def cfg_negative_layers_def kv_result kv_locals go_arith)

lemma kv_gqa_hyps:
  "0 \<le> sint (kv_hiddenLayers cfg_gqa)"
  "kv_kvLoraRank cfg_gqa = - 1"
  "kv_exact_elements cfg_gqa * sint (kv_hiddenLayers cfg_gqa) * 2 < 2 ^ 63"
  by (simp_all add: kv_exact_elements_def cfg_gqa_def kv_locals go_arith)

lemma kv_empty_hyps:
  "kv_kvLoraRank Map.empty = - 1"
  "\<not> 0 < sint (kv_attentionHeads Map.empty)"
  by (simp_all add: kv_locals)

text \<open>
  C9 as stated fails: a run that decodes \<open>kv_lora_rank = 512\<close> and
  \<open>num_hidden_layers = -1\<close> succeeds with \<open>BytesPerToken = -1024\<close>.
\<close>

theorem generated_preset_invariant_counterexample:
  "fst (GeneratePreset env_negative_layers ''org/m'' []) = Inr preset_negative_layers \<and>
   accepted_config env_negative_layers ''org/m'' [] = cfg_negative_layers \<and>
   AttnType preset_negative_layers = ''MLA'' \<and>
   sint (BytesPerToken preset_negative_layers) = - 1024"
proof -
  note r = preset_runs(3)
  note f = mixed_run_fields [OF r [unfolded env_negative_layers_def],
                             folded env_negative_layers_def]
  from r f show ?thesis by (simp add: kv_examples)
qed

lemma mixed_run_disk:
  assumes "fst (GeneratePreset
          (example_env [] (Response 200 (Inr ''[]'')) files_mixed (Response 200 (Inr ''{}'')) cfg)
          ''org/m'' []) = Inr p"
  shows "DiskStorageRequirement p = ''51Gi''"
proof -
  let ?e = "example_env [] (Response 200 (Inr ''[]'')) files_mixed (Response 200 (Inr ''{}'')) cfg"
  let ?g1 = "(sized (NewGenerator ''org/m'' [])
                 [\<lparr>Path = ''model.safetensors'', Size = 70, Type = ''file''\<rparr>])
              \<lparr>ModelConfig := cfg\<rparr>"
  from assms mixed_run [of cfg] have p: "p = Param (FinalizeParams (ParseModelMetadata ?e ?g1))"
    by simp
  have d1: "digits 1 = ''1''"
    by (subst digits.simps) (simp add: digitChar_def)
  have d51: "digits 51 = ''51''"
    by (simp add: digits.simps digitChar_def)
  have "ModelFileSize (Param (ParseModelMetadata ?e ?g1)) = ''1Gi''"
    by (simp add: ParseModelMetadata_keeps sized_def totalBytes_def size_70)
  also have "''1Gi'' = digits 1 @ ''Gi''"
    by (simp only: d1) simp
  finally have "calculateStorageSize (ParseModelMetadata ?e ?g1) = digits (1 + 50) @ ''Gi''"
    by (rule calculateStorageSize_digits) simp
  then show ?thesis
    by (simp add: p Disk_FinalizeParams d51)
qed

theorem generated_preset_invariant_witness:
  "fst (GeneratePreset env_ok ''org/m'' []) = Inr preset_ok \<and>
   accepted_config env_ok ''org/m'' [] = cfg_gqa \<and>
   wellformedGi (ModelFileSize preset_ok) \<and> ModelFileSize preset_ok = ''1Gi'' \<and>
   wellformedGi (DiskStorageRequirement preset_ok) \<and>
   DiskStorageRequirement preset_ok = ''51Gi'' \<and>
   0 \<le> sint (kv_hiddenLayers cfg_gqa) \<and> kv_kvLoraRank cfg_gqa = - 1 \<and>
   kv_exact_elements cfg_gqa * sint (kv_hiddenLayers cfg_gqa) * 2 < 2 ^ 63 \<and>
   0 \<le> sint (BytesPerToken preset_ok) \<and>
   fst (GeneratePreset env_empty_config ''org/m'' []) = Inr preset_empty_config \<and>
   accepted_config env_empty_config ''org/m'' [] = Map.empty \<and>
   kv_kvLoraRank Map.empty = - 1 \<and> \<not> 0 < sint (kv_attentionHeads Map.empty) \<and>
   AttnType preset_empty_config = ''Unknown'' \<and> BytesPerToken preset_empty_config = 0"
proof -
  note ok = mixed_run_fields [OF preset_runs(1) [unfolded env_ok_def], folded env_ok_def]
  note ok_disk = mixed_run_disk [OF preset_runs(1) [unfolded env_ok_def]]
  note em = mixed_run_fields [OF preset_runs(2) [unfolded env_empty_config_def],
                              folded env_empty_config_def]
  note c_ok = generated_preset_invariant [OF preset_runs(1)]
  note c_em = generated_preset_invariant [OF preset_runs(2)]
  have wf_size: "wellformedGi (ModelFileSize preset_ok)"
    using c_ok by (rule conjunct1)
  have wf_disk: "wellformedGi (DiskStorageRequirement preset_ok)"
    using c_ok [THEN conjunct2] by (rule conjunct1)
  have nonneg: "0 \<le> sint (BytesPerToken preset_ok)"
    using c_ok [THEN conjunct2, THEN conjunct2, THEN conjunct1] kv_gqa_hyps
    by (simp only: ok(4) simp_thms)
  have unknown: "AttnType preset_empty_config = ''Unknown'' \<and> BytesPerToken preset_empty_config = 0"
    using c_em [THEN conjunct2, THEN conjunct2, THEN conjunct2, THEN conjunct1] kv_empty_hyps
    by (simp only: em(4) simp_thms)
  from preset_runs(1,2) ok(3,4) em(4) wf_size wf_disk ok_disk nonneg unknown kv_gqa_hyps
    kv_empty_hyps
  show ?thesis by (simp add: size_70)
qed

end
